theory Spec2Isabelle
  imports Complex_Main
begin

section \<open>JavaScript values\<close>

text \<open>
  The sources are JavaScript. A position handed around by the resize code is a string,
  \<open>undefined\<close> (what a \<open>for\<close> loop that falls through returns) or \<open>null\<close> (what
  \<open>_cleanupContext\<close> stores). Calling a method on \<open>undefined\<close> or \<open>null\<close> throws a
  \<open>TypeError\<close>; it is the only exception the modelled code can raise by itself.
  A leading underscore of a source name is dropped (\<open>_invertPosition\<close> is
  \<open>invertPosition\<close>), since an Isabelle name starts with a letter.
\<close>

datatype js_value = JUndefined | JNull | JString string

datatype js_error = TypeError

section \<open>DOM elements\<close>

text \<open>
  The resize code reads three things of a DOM element: its identity (\<open>isSameNode\<close>),
  its class list and its parent element. An element is a value that carries them: the
  chain of its ancestors ends in an element without parent element, which is the
  document's root element when \<open>inDocument\<close> holds and the root of a detached subtree
  otherwise. The code never moves an element.
\<close>

datatype dom_element =
    TopElement (node_id: nat) (classList: "string list") (inDocument: bool)
  | ChildElement (node_id: nat) (classList: "string list") (parentOf: dom_element)

fun parentElement :: "dom_element \<Rightarrow> dom_element option" where
  "parentElement (TopElement n cs d) = None"
| "parentElement (ChildElement n cs p) = Some p"

text \<open>\<open>a.isSameNode( b )\<close>, where \<open>b\<close> may be \<open>null\<close> or \<open>undefined\<close>.\<close>

definition isSameNode :: "dom_element \<Rightarrow> dom_element option \<Rightarrow> bool" where
  "isSameNode a b = (case b of None \<Rightarrow> False | Some e \<Rightarrow> node_id a = node_id e)"

text \<open>\<open>element.ownerDocument.contains( element )\<close>: the element is in the document.\<close>

fun ownerDocument_contains :: "dom_element \<Rightarrow> bool" where
  "ownerDocument_contains (TopElement n cs d) = d"
| "ownerDocument_contains (ChildElement n cs p) = ownerDocument_contains p"

text \<open>\<open>getAncestors\<close> of \<open>@ckeditor/ckeditor5-utils\<close>: the ancestors of a node from the
  top-most one down, the node itself last.\<close>

fun getAncestors :: "dom_element \<Rightarrow> dom_element list" where
  "getAncestors (TopElement n cs d) = [TopElement n cs d]"
| "getAncestors (ChildElement n cs p) = getAncestors p @ [ChildElement n cs p]"

text \<open>\<open>classList.add\<close> and \<open>classList.remove\<close> of a token.\<close>

fun with_classList :: "(string list \<Rightarrow> string list) \<Rightarrow> dom_element \<Rightarrow> dom_element" where
  "with_classList f (TopElement n cs d) = TopElement n (f cs) d"
| "with_classList f (ChildElement n cs p) = ChildElement n (f cs) p"

definition classList_add :: "string \<Rightarrow> dom_element \<Rightarrow> dom_element" where
  "classList_add token = with_classList (\<lambda>cs. if token \<in> set cs then cs else cs @ [token])"

definition classList_remove :: "string \<Rightarrow> dom_element \<Rightarrow> dom_element" where
  "classList_remove token = with_classList (filter (\<lambda>c. c \<noteq> token))"

section \<open>Handle positions (\<open>resizecontext.js\<close>, \<open>widgetresizer/resizer.js\<close>)\<close>

text \<open>The array literal \<open>[ 'top-left', 'top-right', 'bottom-right', 'bottom-left' ]\<close>
  of \<open>_appendResizers\<close>, \<open>_getResizerPosition\<close> and \<open>_getHandlePosition\<close>.\<close>

definition resizerPositions :: "string list" where
  "resizerPositions = [''top-left'', ''top-right'', ''bottom-right'', ''bottom-left'']"

text \<open>\<open>String.prototype.split\<close> with a one-character separator: the pieces between the
  separators, so the empty string gives one empty piece.\<close>

fun js_split :: "char \<Rightarrow> string \<Rightarrow> string list" where
  "js_split sep [] = [[]]"
| "js_split sep (c # cs) =
     (if c = sep then [] # js_split sep cs
      else (case js_split sep cs of
              [] \<Rightarrow> [[c]]
            | piece # pieces \<Rightarrow> (c # piece) # pieces))"

text \<open>\<open>parts[ i ]\<close>: an index past the end reads \<open>undefined\<close>.\<close>

fun js_index :: "'a list \<Rightarrow> nat \<Rightarrow> 'a option" where
  "js_index [] i = None"
| "js_index (x # xs) 0 = Some x"
| "js_index (x # xs) (Suc i) = js_index xs i"

text \<open>
  The object literal \<open>replacements\<close> of \<open>_invertPosition\<close>. Reading a property of an
  object literal also finds what the literal inherits from \<open>Object.prototype\<close>, so a
  lookup has three outcomes. The key \<open>undefined\<close> (a missing part) is converted to the
  string \<open>"undefined"\<close>, which is neither an own nor an inherited property.
\<close>

definition replacements :: "(string \<times> string) list" where
  "replacements =
     [(''top'', ''bottom''), (''bottom'', ''top''), (''left'', ''right''), (''right'', ''left'')]"

definition Object_prototype_members :: "string list" where
  "Object_prototype_members =
     [''constructor'', ''hasOwnProperty'', ''isPrototypeOf'', ''propertyIsEnumerable'',
      ''toLocaleString'', ''toString'', ''valueOf'', ''__proto__'',
      ''__defineGetter__'', ''__defineSetter__'', ''__lookupGetter__'', ''__lookupSetter__'']"

datatype property_lookup = Own string | Inherited string | Missing

definition replacements_get :: "string option \<Rightarrow> property_lookup" where
  "replacements_get key =
     (case key of
        None \<Rightarrow> Missing
      | Some k \<Rightarrow>
          (case map_of replacements k of
             Some v \<Rightarrow> Own v
           | None \<Rightarrow> if k \<in> set Object_prototype_members then Inherited k else Missing))"

text \<open>
  What a template literal \<open>`${ v }`\<close> prints for a lookup result. An inherited member
  is a built-in function, printed as V8 prints it (engines differ in its white space),
  except \<open>__proto__\<close>, which reads \<open>Object.prototype\<close> itself.
\<close>

fun template_text :: "property_lookup \<Rightarrow> string" where
  "template_text (Own v) = v"
| "template_text Missing = ''undefined''"
| "template_text (Inherited k) =
     (if k = ''__proto__'' then ''[object Object]''
      else ''function '' @ (if k = ''constructor'' then ''Object'' else k) @
           ''() { [native code] }'')"

text \<open>
  \<open>ResizeContext._invertPosition\<close>:
  \<^verbatim>\<open>const parts = position.split( '-' );\<close>
  \<^verbatim>\<open>return `${ replacements[ parts[ 0 ] ] }-${ replacements[ parts[ 1 ] ] }`;\<close>
  There is no check of \<open>position\<close>: the only failure is the \<open>TypeError\<close> of
  \<open>position.split\<close> on \<open>undefined\<close> or \<open>null\<close>.
\<close>

fun invertPosition :: "js_value \<Rightarrow> js_error + string" where
  "invertPosition JUndefined = Inl TypeError"
| "invertPosition JNull = Inl TypeError"
| "invertPosition (JString position) =
     (let parts = js_split CHR ''-'' position
      in Inr (template_text (replacements_get (js_index parts 0)) @ ''-'' @
              template_text (replacements_get (js_index parts 1))))"

text \<open>\<open>_getResizerClass\<close> of \<open>resizecontext.js\<close> and the function \<open>getResizerClass\<close>
  of \<open>resizer.js\<close>: \<^verbatim>\<open>`ck-widget__resizer-${ resizerPosition }`\<close>.\<close>

definition getResizerClass :: "string \<Rightarrow> string" where
  "getResizerClass resizerPosition = ''ck-widget__resizer-'' @ resizerPosition"

text \<open>
  The loop shared by \<open>ResizeContext._getResizerPosition\<close> and
  \<open>Resizer._getHandlePosition\<close>, over the class list (the tokens of the \<open>class\<close>
  attribute) of the handle: the first position, in the order of the array, whose class the
  handle carries is returned; falling through returns \<open>undefined\<close>.
\<close>

fun firstPositionIn :: "string list \<Rightarrow> string list \<Rightarrow> js_value" where
  "firstPositionIn [] tokens = JUndefined"
| "firstPositionIn (position # positions) tokens =
     (if getResizerClass position \<in> set tokens then JString position
      else firstPositionIn positions tokens)"

definition getResizerPosition :: "dom_element \<Rightarrow> js_value" where
  "getResizerPosition domResizeHandler =
     firstPositionIn resizerPositions (classList domResizeHandler)"

definition getHandlePosition :: "dom_element \<Rightarrow> js_value" where
  "getHandlePosition domHandle = firstPositionIn resizerPositions (classList domHandle)"

text \<open>The class tokens \<open>_appendResizers\<close> gives the handle of a position:
  \<^verbatim>\<open>class: `ck-widget__resizer ${ getResizerClass( currentPosition ) }`\<close>.\<close>

definition appendResizers_classes :: "string \<Rightarrow> string list" where
  "appendResizers_classes currentPosition =
     [''ck-widget__resizer'', getResizerClass currentPosition]"

section \<open>Numbers, rendered boxes and inline styles\<close>

text \<open>
  A JavaScript number is a finite value, an infinity or \<open>NaN\<close>. Finite values are taken
  exact (real numbers): the rounding of a quotient to a double is not modelled, and neither
  is the sign of zero.
\<close>

datatype js_num = Num real | PosInfinity | NegInfinity | NaN

text \<open>\<open>x / y\<close> for two integer-valued numbers: a division by zero does not throw.\<close>

definition js_div :: "int \<Rightarrow> int \<Rightarrow> js_num" where
  "js_div a b =
     (if b = 0 then (if a = 0 then NaN else if 0 < a then PosInfinity else NegInfinity)
      else Num (of_int a / of_int b))"

text \<open>The decimal text of an integer, as string concatenation prints a number.\<close>

fun show_nat :: "nat \<Rightarrow> string" where
  "show_nat n =
     (if n < 10 then [''0123456789'' ! n]
      else show_nat (n div 10) @ [''0123456789'' ! (n mod 10)])"

declare show_nat.simps [simp del]

definition show_int :: "int \<Rightarrow> string" where
  "show_int i = (if i < 0 then ''-'' @ show_nat (nat (- i)) else show_nat (nat i))"

text \<open>The text of \<open>Math.round( v )\<close>, which rounds a half upwards; \<open>Math.round( null )\<close>
  is \<open>0\<close>.\<close>

fun round_text :: "js_num option \<Rightarrow> string" where
  "round_text None = ''0''"
| "round_text (Some (Num q)) = show_int \<lfloor>q + 1 / 2\<rfloor>"
| "round_text (Some PosInfinity) = ''Infinity''"
| "round_text (Some NegInfinity) = ''-Infinity''"
| "round_text (Some NaN) = ''NaN''"

text \<open>The label callback of both \<open>SizeView\<close>s:
  \<^verbatim>\<open>( x, y ) => `${ Math.round( x ) }x${ Math.round( y ) }`\<close>.\<close>

definition size_label :: "js_num option \<Rightarrow> js_num option \<Rightarrow> string" where
  "size_label px py = round_text px @ ''x'' @ round_text py"

text \<open>
  What the browser has rendered for one element: the integer \<open>client*\<close> and \<open>offset*\<close>
  properties and the width and height of its bounding rectangle (what \<open>new Rect( element )\<close>
  of \<open>@ckeditor/ckeditor5-utils\<close> reads).
\<close>

record box =
  clientWidth :: int
  clientHeight :: int
  offsetLeft :: int
  offsetTop :: int
  offsetWidth :: int
  offsetHeight :: int
  rectWidth :: real
  rectHeight :: real

text \<open>
  The inline style of an element, as far as the code assigns it: \<open>v + 'px'\<close> is \<open>Px v\<close>
  for a number \<open>v\<close> and \<open>NullPx\<close> (the text \<open>nullpx\<close>) for \<open>null\<close>, and
  \<open>removeAttribute( 'style' )\<close> leaves \<open>no_style\<close>. The document's styles are a store
  from node identities to inline styles.
\<close>

datatype css_value = Px js_num | NullPx

record inline_style =
  style_left :: "css_value option"
  style_top :: "css_value option"
  style_width :: "css_value option"
  style_height :: "css_value option"

definition no_style :: inline_style where
  "no_style = \<lparr>style_left = None, style_top = None, style_width = None, style_height = None\<rparr>"

type_synonym styles = "nat \<Rightarrow> inline_style"

text \<open>
  The browser is a parameter: \<open>layout\<close> gives the rendered box of every element for the
  current styles. A property read after a style assignment sees the layout of the new
  styles, so every read below goes through \<open>layout\<close> with the styles of that moment.
\<close>

type_synonym layout = "styles \<Rightarrow> nat \<Rightarrow> box"

section \<open>The editor: mapper and model\<close>

text \<open>
  The editing engine is a collaborator. \<open>toModelElement\<close> is the mapper from a view
  element to its model element (\<open>undefined\<close> when there is none), and \<open>model_changes\<close>
  records the calls made to the model: one entry for each \<open>editor.model.change( ... )\<close>
  block, holding the \<open>writer.setAttribute( key, value, item )\<close> calls of the block, with
  the item as it was passed (\<open>None\<close> for \<open>undefined\<close>). What the engine does with a call
  is not part of the sources; each call is taken to return.
\<close>

datatype attribute_value = NumberValue int | StringValue string

datatype attribute_write = SetAttribute string attribute_value "nat option"

record editor =
  toModelElement :: "nat option \<Rightarrow> nat option"
  model_changes :: "attribute_write list list"

definition model_change :: "attribute_write list \<Rightarrow> editor \<Rightarrow> editor" where
  "model_change writes ed = ed\<lparr>model_changes := model_changes ed @ [writes]\<rparr>"

text \<open>How a method ends: normally, or by throwing, in either case with the state as the
  method left it.\<close>

datatype 'a outcome = Normal 'a | Threw js_error 'a

fun state_of :: "'a outcome \<Rightarrow> 'a" where
  "state_of (Normal s) = s"
| "state_of (Threw e s) = s"

fun is_Normal :: "'a outcome \<Rightarrow> bool" where
  "is_Normal (Normal s) = True"
| "is_Normal (Threw e s) = False"

text \<open>\<open>domEventData\<close> of a mouse event.\<close>

record dom_event_data =
  target :: dom_element
  pageX :: int
  pageY :: int

text \<open>Two statements in a row: the second runs only when the first did not throw.\<close>

fun and_then :: "'a outcome \<Rightarrow> ('a \<Rightarrow> 'a outcome) \<Rightarrow> 'a outcome" where
  "and_then (Normal s) f = f s"
| "and_then (Threw e s) f = Threw e s"

text \<open>
  The state a method of a resize object can touch: the object itself, the styles of the
  document and the editor.
\<close>

record 'o frame =
  self :: 'o
  dom :: styles
  editing :: editor

section \<open>\<open>ResizeContext\<close> (\<open>resizecontext.js\<close>)\<close>

text \<open>
  \<open>ResizerOptions\<close>, as \<open>widgetresizer.js\<close> documents the interface and as \<open>resizer.js\<close>
  reads it: \<open>getResizeHost\<close> selects the resized element from the widget wrapper,
  \<open>getAspectRatio\<close> overrides the ratio, \<open>modelElement\<close> is the model element of the
  widget. An option that is not given is \<open>None\<close>. The callbacks are taken to return.
\<close>

record resizer_options =
  getResizeHost :: "(dom_element option \<Rightarrow> dom_element option) option"
  getAspectRatio :: "(dom_element option \<Rightarrow> js_num) option"
  modelElement :: "nat option"

record point =
  point_x :: real
  point_y :: real

record size_xy =
  size_x :: int
  size_y :: int

text \<open>
  The fields of a \<open>ResizeContext\<close> that its methods read or write. \<open>proposedX\<close>,
  \<open>proposedY\<close> and \<open>orientation\<close> are its observable properties (set through
  \<open>this.set\<close>); \<open>aspectRatio\<close> is \<open>undefined\<close> until the first \<open>begin\<close>. The strategy
  object (\<open>ResizerTopBound\<close>) has a state of its own, of type \<open>'s\<close>.
\<close>

record 's resize_context =
  widgetWrapperElement :: "nat option"
  domResizeWrapper :: "dom_element option"
  domResizeShadow :: "dom_element option"
  options :: resizer_options
  resizeStrategy :: 's
  referenceCoordinates :: point
  originalSize :: size_xy
  aspectRatio :: "js_num option"
  referenceHandlerPosition :: js_value
  proposedX :: "js_num option"
  proposedY :: "js_num option"
  orientation :: js_value

text \<open>
  \<open>ResizerTopBound\<close> (\<open>./resizertopbound\<close>) and \<open>getAbsoluteBoundaryPoint\<close>
  (\<open>./utils\<close>) are not among the sources, so they are parameters. The methods of the
  strategy act on the strategy's state; \<open>updateSize\<close> also reads the context and the
  document and returns the proposed size \<open>{ x, y }\<close>. \<open>getAbsoluteBoundaryPoint\<close>
  reads the rendered document and may throw.
\<close>

record 's strategy =
  strategy_begin :: "dom_element \<Rightarrow> 's \<Rightarrow> 's"
  strategy_commit :: "'s \<Rightarrow> 's"
  strategy_cancel :: "'s \<Rightarrow> 's"
  strategy_updateSize ::
    "'s resize_context \<Rightarrow> styles \<Rightarrow> dom_event_data \<Rightarrow> 's \<Rightarrow> (js_num \<times> js_num) \<times> 's"

record 's environment =
  layout :: layout
  getAbsoluteBoundaryPoint :: "styles \<Rightarrow> dom_element option \<Rightarrow> string \<Rightarrow> js_error + point"
  strategy :: "'s strategy"

definition WIDTH_ATTRIBUTE_NAME :: string where
  "WIDTH_ATTRIBUTE_NAME = ''width''"

text \<open>\<open>_cleanupContext\<close>.\<close>

definition cleanupContext :: "'s resize_context \<Rightarrow> 's resize_context" where
  "cleanupContext c =
     c\<lparr>referenceHandlerPosition := JNull, proposedX := None, proposedY := None,
       orientation := JNull\<rparr>"

text \<open>The constructor: the fields as \<open>new ResizeContext( options )\<close> leaves them, for a
  strategy in its initial state.\<close>

definition ResizeContext_new :: "resizer_options \<Rightarrow> 's \<Rightarrow> 's resize_context" where
  "ResizeContext_new opts strategy0 =
     cleanupContext
       \<lparr>widgetWrapperElement = None, domResizeWrapper = None, domResizeShadow = None,
        options = opts, resizeStrategy = strategy0,
        referenceCoordinates = \<lparr>point_x = 0, point_y = 0\<rparr>,
        originalSize = \<lparr>size_x = 0, size_y = 0\<rparr>,
        aspectRatio = None, referenceHandlerPosition = JUndefined,
        proposedX = None, proposedY = None, orientation = JUndefined\<rparr>"

text \<open>\<open>_getResizeHost\<close>: reading \<open>parentElement\<close> of a \<open>null\<close> wrapper throws.\<close>

definition ResizeContext_getResizeHost ::
  "'s resize_context \<Rightarrow> js_error + dom_element option" where
  "ResizeContext_getResizeHost c =
     (case domResizeWrapper c of
        None \<Rightarrow> Inl TypeError
      | Some wrapper \<Rightarrow>
          (let widgetWrapper = parentElement wrapper
           in Inr (case getResizeHost (options c) of
                     Some f \<Rightarrow> f widgetWrapper
                   | None \<Rightarrow> widgetWrapper)))"

text \<open>
  \<open>begin( domResizeHandler )\<close>, statement by statement. It throws where the source
  dereferences \<open>null\<close> or \<open>undefined\<close>: the wrapper in \<open>_getResizeHost\<close>, the shadow,
  the position in \<open>_invertPosition\<close> and the host in \<open>resizeHost.clientWidth\<close>. There is
  no other exit before the strategy is called: the height of the host is not inspected,
  and the quotient \<open>originalSize.x / originalSize.y\<close> is a division of numbers.
\<close>

definition ResizeContext_begin ::
  "'s environment \<Rightarrow> dom_element \<Rightarrow> 's resize_context frame \<Rightarrow> 's resize_context frame outcome"
where
  "ResizeContext_begin env domResizeHandler st =
     (case ResizeContext_getResizeHost (self st) of
        Inl e \<Rightarrow> Threw e st
      | Inr resizeHost \<Rightarrow>
     (case domResizeShadow (self st) of
        None \<Rightarrow> Threw TypeError st
      | Some shadow \<Rightarrow>
     (let c1 = (self st)\<lparr>domResizeShadow :=
                  Some (classList_add ''ck-widget__resizer-shadow-active'' shadow)\<rparr>;
          c2 = c1\<lparr>referenceHandlerPosition := getResizerPosition domResizeHandler\<rparr>;
          c3 = c2\<lparr>orientation := referenceHandlerPosition c2\<rparr>
      in
     (case invertPosition (referenceHandlerPosition c3) of
        Inl e \<Rightarrow> Threw e (st\<lparr>self := c3\<rparr>)
      | Inr reversedPosition \<Rightarrow>
     (case getAbsoluteBoundaryPoint env (dom st) resizeHost reversedPosition of
        Inl e \<Rightarrow> Threw e (st\<lparr>self := c3\<rparr>)
      | Inr boundaryPoint \<Rightarrow>
     (let c4 = c3\<lparr>referenceCoordinates := boundaryPoint\<rparr>
      in
     (case resizeHost of
        None \<Rightarrow> Threw TypeError (st\<lparr>self := c4\<rparr>)
      | Some host \<Rightarrow>
     (let c5 = c4\<lparr>originalSize :=
                  \<lparr>size_x = clientWidth (layout env (dom st) (node_id host)),
                   size_y = clientHeight (layout env (dom st) (node_id host))\<rparr>\<rparr>;
          c6 = c5\<lparr>aspectRatio :=
                  Some (case getAspectRatio (options c5) of
                          Some f \<Rightarrow> f resizeHost
                        | None \<Rightarrow> js_div (size_x (originalSize c5)) (size_y (originalSize c5)))\<rparr>;
          c7 = c6\<lparr>resizeStrategy :=
                  strategy_begin (strategy env) domResizeHandler (resizeStrategy c6)\<rparr>
      in Normal (st\<lparr>self := c7\<rparr>)))))))))"

text \<open>\<open>_dismissShadow\<close>.\<close>

definition ResizeContext_dismissShadow ::
  "'s resize_context frame \<Rightarrow> 's resize_context frame outcome" where
  "ResizeContext_dismissShadow st =
     (case domResizeShadow (self st) of
        None \<Rightarrow> Threw TypeError st
      | Some shadow \<Rightarrow>
          Normal (st\<lparr>self := (self st)\<lparr>domResizeShadow :=
                      Some (classList_remove ''ck-widget__resizer-shadow-active'' shadow)\<rparr>,
                    dom := (dom st)(node_id shadow := no_style)\<rparr>))"

text \<open>
  The four assignments that \<open>ResizeContext.redraw\<close> and \<open>Resizer.redraw\<close> share, on the
  wrapper \<open>w\<close> of the overlay, from the host \<open>h\<close>:
  \<^verbatim>\<open>style.left = resizingHost.offsetLeft + 'px';\<close> then \<open>top\<close>, \<open>height\<close> and \<open>width\<close>.
  Each right-hand side is read when its statement runs.
\<close>

definition px_int :: "int \<Rightarrow> css_value" where
  "px_int i = Px (Num (of_int i))"

definition follow_host_offsets :: "layout \<Rightarrow> nat \<Rightarrow> nat \<Rightarrow> styles \<Rightarrow> styles" where
  "follow_host_offsets lay w h d0 =
     (let d1 = d0(w := (d0 w)\<lparr>style_left := Some (px_int (offsetLeft (lay d0 h)))\<rparr>);
          d2 = d1(w := (d1 w)\<lparr>style_top := Some (px_int (offsetTop (lay d1 h)))\<rparr>);
          d3 = d2(w := (d2 w)\<lparr>style_height := Some (px_int (offsetHeight (lay d2 h)))\<rparr>);
          d4 = d3(w := (d3 w)\<lparr>style_width := Some (px_int (offsetWidth (lay d3 h)))\<rparr>)
      in d4)"

text \<open>\<open>redraw()\<close>: nothing happens without a wrapper, and nothing is written when the
  host is the widget wrapper itself.\<close>

definition ResizeContext_redraw ::
  "layout \<Rightarrow> 's resize_context frame \<Rightarrow> 's resize_context frame outcome" where
  "ResizeContext_redraw lay st =
     (case domResizeWrapper (self st) of
        None \<Rightarrow> Normal st
      | Some wrapper \<Rightarrow>
     (let widgetWrapper = parentElement wrapper
      in
     (case ResizeContext_getResizeHost (self st) of
        Inl e \<Rightarrow> Threw e st
      | Inr resizingHost \<Rightarrow>
     (case widgetWrapper of
        None \<Rightarrow> Threw TypeError st
      | Some ww \<Rightarrow>
          if \<not> isSameNode ww resizingHost then
            (case resizingHost of
               None \<Rightarrow> Threw TypeError st
             | Some host \<Rightarrow>
                 Normal (st\<lparr>dom := follow_host_offsets lay (node_id wrapper) (node_id host)
                                     (dom st)\<rparr>))
          else Normal st))))"

text \<open>
  \<open>commit( editor )\<close>. The mapper's result is passed on to \<open>setAttribute\<close> as it is:
  no statement of \<open>commit\<close> looks at \<open>modelEntry\<close>.
\<close>

definition ResizeContext_commit ::
  "'s environment \<Rightarrow> 's resize_context frame \<Rightarrow> 's resize_context frame outcome" where
  "ResizeContext_commit env st =
     (let modelEntry = toModelElement (editing st) (widgetWrapperElement (self st))
      in
     (case domResizeShadow (self st) of
        None \<Rightarrow> Threw TypeError st
      | Some shadow \<Rightarrow>
     (let newWidth = clientWidth (layout env (dom st) (node_id shadow))
      in
        and_then (ResizeContext_dismissShadow st) (\<lambda>s1.
        and_then (ResizeContext_redraw (layout env) s1) (\<lambda>s2.
          (let s3 = s2\<lparr>self := (self s2)\<lparr>resizeStrategy :=
                          strategy_commit (strategy env) (resizeStrategy (self s2))\<rparr>\<rparr>;
               s4 = s3\<lparr>editing :=
                          model_change
                            [SetAttribute WIDTH_ATTRIBUTE_NAME (NumberValue newWidth) modelEntry]
                            (editing s3)\<rparr>
           in Normal (s4\<lparr>self := cleanupContext (self s4)\<rparr>)))))))"

text \<open>\<open>cancel()\<close>.\<close>

definition ResizeContext_cancel ::
  "'s environment \<Rightarrow> 's resize_context frame \<Rightarrow> 's resize_context frame outcome" where
  "ResizeContext_cancel env st =
     and_then (ResizeContext_dismissShadow st) (\<lambda>s1.
       (let s2 = s1\<lparr>self := (self s1)\<lparr>resizeStrategy :=
                       strategy_cancel (strategy env) (resizeStrategy (self s1))\<rparr>\<rparr>
        in Normal (s2\<lparr>self := cleanupContext (self s2)\<rparr>)))"

text \<open>\<open>destroy()\<close>; the property \<open>wrapper\<close> it clears is read nowhere.\<close>

definition ResizeContext_destroy ::
  "'s environment \<Rightarrow> 's resize_context frame \<Rightarrow> 's resize_context frame outcome" where
  "ResizeContext_destroy env st =
     and_then (ResizeContext_cancel env st) (\<lambda>s1.
       Normal (s1\<lparr>self := (self s1)\<lparr>domResizeShadow := None\<rparr>\<rparr>))"

text \<open>\<open>updateSize( domEventData )\<close>.\<close>

definition ResizeContext_updateSize ::
  "'s environment \<Rightarrow> dom_event_data \<Rightarrow> 's resize_context frame \<Rightarrow>
   's resize_context frame outcome" where
  "ResizeContext_updateSize env domEventData st =
     (case strategy_updateSize (strategy env) (self st) (dom st) domEventData
             (resizeStrategy (self st)) of
        (proposedSize, strategy') \<Rightarrow>
     (let s1 = st\<lparr>self := (self st)\<lparr>resizeStrategy := strategy'\<rparr>\<rparr>
      in
     (case domResizeWrapper (self s1) of
        None \<Rightarrow> Threw TypeError s1
      | Some wrapper \<Rightarrow>
     (let w = node_id wrapper;
          d1 = (dom s1)(w := (dom s1 w)\<lparr>style_width := Some (Px (fst proposedSize))\<rparr>);
          d2 = d1(w := (d1 w)\<lparr>style_height := Some (Px (snd proposedSize))\<rparr>)
      in Normal (s1\<lparr>dom := d2,
                    self := (self s1)\<lparr>proposedX := Some (fst proposedSize),
                                       proposedY := Some (snd proposedSize)\<rparr>\<rparr>)))))"

text \<open>The \<open>SizeView\<close> of a context is bound to the context in \<open>_appendSizeUi\<close>: its
  properties are, at every moment, what the bound callbacks compute.\<close>

definition ResizeContext_sizeUi_isVisible :: "'s resize_context \<Rightarrow> bool" where
  "ResizeContext_sizeUi_isVisible c = (proposedX c \<noteq> None \<and> proposedY c \<noteq> None)"

definition ResizeContext_sizeUi_label :: "'s resize_context \<Rightarrow> string" where
  "ResizeContext_sizeUi_label c = size_label (proposedX c) (proposedY c)"

section \<open>\<open>WidgetResizer\<close> (\<open>widgetresizer.js\<close>)\<close>

text \<open>
  The plugin with what its handlers reach: \<open>contexts\<close>, \<open>activeContext\<close>, whether
  \<open>mouseMoveListener\<close> is subscribed to \<open>mousemove\<close>, the styles of the document and
  the editor. A reference to a context is its index in \<open>contexts\<close>, so a change made
  through \<open>activeContext\<close> is a change of that entry; \<open>null\<close> and \<open>undefined\<close> are
  \<open>None\<close>. The handlers store only an index that \<open>_getContextByWrapper\<close> has found.
\<close>

record 's widget_resizer =
  contexts :: "'s resize_context list"
  activeContext :: "nat option"
  mouseMoveListening :: bool
  document :: styles
  editor :: editor

text \<open>\<open>init()\<close>: the fields before the first event.\<close>

definition WidgetResizer_init :: "styles \<Rightarrow> editor \<Rightarrow> 's widget_resizer" where
  "WidgetResizer_init d ed =
     \<lparr>contexts = [], activeContext = None, mouseMoveListening = False,
      document = d, editor = ed\<rparr>"

text \<open>The object \<open>this.activeContext\<close> refers to, with its index; \<open>None\<close> when the test
  \<open>if ( this.activeContext )\<close> fails.\<close>

definition activeContext_object :: "'s widget_resizer \<Rightarrow> (nat \<times> 's resize_context) option" where
  "activeContext_object w =
     (case activeContext w of
        None \<Rightarrow> None
      | Some i \<Rightarrow> (case js_index (contexts w) i of None \<Rightarrow> None | Some c \<Rightarrow> Some (i, c)))"

text \<open>Running a method of the context at index \<open>i\<close>: the method's frame is cut out of
  the plugin's state and put back when the method ends, normally or not.\<close>

definition put_frame ::
  "nat \<Rightarrow> 's widget_resizer \<Rightarrow> 's resize_context frame \<Rightarrow> 's widget_resizer" where
  "put_frame i w s =
     w\<lparr>contexts := (contexts w)[i := self s], document := dom s, editor := editing s\<rparr>"

definition on_context ::
  "nat \<Rightarrow> 's resize_context \<Rightarrow>
   ('s resize_context frame \<Rightarrow> 's resize_context frame outcome) \<Rightarrow>
   's widget_resizer \<Rightarrow> 's widget_resizer outcome" where
  "on_context i c method w =
     (case method \<lparr>self = c, dom = document w, editing = editor w\<rparr> of
        Normal s \<Rightarrow> Normal (put_frame i w s)
      | Threw e s \<Rightarrow> Threw e (put_frame i w s))"

text \<open>\<open>isResizeHandler\<close>; every element has a class list.\<close>

definition isResizeHandler :: "dom_element \<Rightarrow> bool" where
  "isResizeHandler element = (''ck-widget__resizer'' \<in> set (classList element))"

text \<open>\<open>_getContextByWrapper\<close>: the loop calls \<open>isSameNode\<close> on its argument, which
  throws when the argument is \<open>undefined\<close> and there is a context to compare with.\<close>

fun getContextByWrapper_from ::
  "nat \<Rightarrow> 's resize_context list \<Rightarrow> dom_element option \<Rightarrow> js_error + nat option" where
  "getContextByWrapper_from i [] wrapper = Inr None"
| "getContextByWrapper_from i (c # cs) wrapper =
     (case wrapper of
        None \<Rightarrow> Inl TypeError
      | Some el \<Rightarrow>
          if isSameNode el (domResizeWrapper c) then Inr (Some i)
          else getContextByWrapper_from (Suc i) cs wrapper)"

definition getContextByWrapper ::
  "'s widget_resizer \<Rightarrow> dom_element option \<Rightarrow> js_error + nat option" where
  "getContextByWrapper w wrapper = getContextByWrapper_from 0 (contexts w) wrapper"

text \<open>\<open>_getContextByHandler\<close>: the first element with the wrapper class among the
  ancestors, which are listed from the top.\<close>

definition getContextByHandler ::
  "'s widget_resizer \<Rightarrow> dom_element \<Rightarrow> js_error + nat option" where
  "getContextByHandler w domResizeHandler =
     getContextByWrapper w
       (js_index
          (filter (\<lambda>element. ''ck-widget__resizer-wrapper'' \<in> set (classList element))
             (getAncestors domResizeHandler)) 0)"

text \<open>
  The \<open>mousedown\<close> listener. Its first statement looks for the handle; nothing in it
  reads \<open>this.activeContext\<close> before the assignment.
\<close>

definition mousedown_resizeHandler :: "dom_element \<Rightarrow> dom_element option" where
  "mousedown_resizeHandler tgt =
     (if isResizeHandler tgt then Some tgt
      else js_index (filter isResizeHandler (getAncestors tgt)) 0)"

definition mousedown ::
  "'s environment \<Rightarrow> dom_event_data \<Rightarrow> 's widget_resizer \<Rightarrow> 's widget_resizer outcome" where
  "mousedown env domEventData w =
     (case mousedown_resizeHandler (target domEventData) of
        None \<Rightarrow> Normal w
      | Some resizeHandler \<Rightarrow>
     (let w1 = w\<lparr>mouseMoveListening := True\<rparr>
      in
     (case getContextByHandler w1 resizeHandler of
        Inl e \<Rightarrow> Threw e w1
      | Inr found \<Rightarrow>
     (let w2 = w1\<lparr>activeContext := found\<rparr>
      in
     (case activeContext_object w2 of
        None \<Rightarrow> Normal w2
      | Some (i, c) \<Rightarrow> on_context i c (ResizeContext_begin env resizeHandler) w2)))))"

text \<open>\<open>mouseMoveListener\<close>.\<close>

definition mouseMoveListener ::
  "'s environment \<Rightarrow> dom_event_data \<Rightarrow> 's widget_resizer \<Rightarrow> 's widget_resizer outcome" where
  "mouseMoveListener env domEventData w =
     (case activeContext_object w of
        None \<Rightarrow> Normal w
      | Some (i, c) \<Rightarrow> on_context i c (ResizeContext_updateSize env domEventData) w)"

text \<open>\<open>finishResizing\<close>, the \<open>mouseup\<close> listener.\<close>

definition finishResizing ::
  "'s environment \<Rightarrow> 's widget_resizer \<Rightarrow> 's widget_resizer outcome" where
  "finishResizing env w =
     (case activeContext_object w of
        None \<Rightarrow> Normal w
      | Some (i0, c0) \<Rightarrow>
     (let w1 = w\<lparr>mouseMoveListening := False\<rparr>
      in
        and_then
          (case activeContext_object w1 of
             None \<Rightarrow> Normal w1
           | Some (i, c) \<Rightarrow> on_context i c (ResizeContext_commit env) w1)
          (\<lambda>w2. Normal (w2\<lparr>activeContext := None\<rparr>))))"

text \<open>
  The pointer events the plugin listens to, and what the browser does with one: a
  \<open>mousemove\<close> reaches \<open>mouseMoveListener\<close> only while it is subscribed. An exception
  that leaves a listener ends that event only: the next event finds the state as the
  listener left it.
\<close>

datatype pointer_event = MouseDown dom_event_data | MouseMove dom_event_data | MouseUp

fun dispatch ::
  "'s environment \<Rightarrow> pointer_event \<Rightarrow> 's widget_resizer \<Rightarrow> 's widget_resizer outcome" where
  "dispatch env (MouseDown d) w = mousedown env d w"
| "dispatch env (MouseMove d) w =
     (if mouseMoveListening w then mouseMoveListener env d w else Normal w)"
| "dispatch env MouseUp w = finishResizing env w"

fun run :: "'s environment \<Rightarrow> pointer_event list \<Rightarrow> 's widget_resizer \<Rightarrow> 's widget_resizer" where
  "run env [] w = w"
| "run env (ev # evs) w = run env evs (state_of (dispatch env ev w))"

section \<open>\<open>Resizer\<close> (\<open>widgetresizer/resizer.js\<close>)\<close>

text \<open>
  Modelled from the spec: \<open>ResizeState\<close> (\<open>./resizerstate\<close>) is not among the sources.
  Of its fields only the proposed size is read by \<open>Resizer\<close>; the reference geometry that
  \<open>begin\<close> captures is kept as a value of type \<open>'g\<close>. \<open>fetchSizeFromElement\<close> is what the
  spec calls re-reading the host's actual rendered size: it stores the width and the
  height of the element's rendered rectangle as the proposed size. \<open>proposeNewSize\<close> is
  a parameter.
\<close>

record 'g resize_state =
  referenceGeometry :: 'g
  proposedWidth :: "js_num option"
  proposedHeight :: "js_num option"

definition fetchSizeFromElement ::
  "layout \<Rightarrow> styles \<Rightarrow> dom_element option \<Rightarrow> 'g resize_state \<Rightarrow> js_error + 'g resize_state"
where
  "fetchSizeFromElement lay d domResizeHost state =
     (case domResizeHost of
        None \<Rightarrow> Inl TypeError
      | Some host \<Rightarrow>
          Inr (state\<lparr>proposedWidth := Some (Num (rectWidth (lay d (node_id host)))),
                     proposedHeight := Some (Num (rectHeight (lay d (node_id host))))\<rparr>))"

text \<open>
  The parameters of \<open>Resizer.updateSize\<close>: the browser, and \<open>proposeNewSize\<close> of
  \<open>ResizeState\<close>, which returns the \<open>width\<close> and the \<open>height\<close> of the new size.
\<close>

record 'g resizer_environment =
  r_layout :: layout
  proposeNewSize :: "'g resize_state \<Rightarrow> dom_event_data \<Rightarrow> js_num \<times> js_num"

text \<open>
  The \<open>SizeView\<close> of a \<open>Resizer\<close>: \<open>bindResizer\<close>, which \<open>Resizer.begin\<close> calls on
  the new resize state, binds \<open>isVisible\<close> and \<open>label\<close> to the state, and \<open>dismiss\<close>
  unbinds them. While bound, a property is what its callback computes from the state;
  unbound, it keeps the value it has.
\<close>

record size_view =
  bound :: bool
  isVisible :: bool
  label :: string

record 'g resizer =
  r_options :: resizer_options
  r_domResizeWrapper :: "dom_element option"
  r_domResizeShadow :: "dom_element option"
  r_state :: "'g resize_state option"
  sizeUi :: "size_view option"

definition sizeUi_label :: "'g resizer \<Rightarrow> string option" where
  "sizeUi_label r =
     (case sizeUi r of
        None \<Rightarrow> None
      | Some v \<Rightarrow>
          (case r_state r of
             Some state \<Rightarrow>
               if bound v then Some (size_label (proposedWidth state) (proposedHeight state))
               else Some (label v)
           | None \<Rightarrow> Some (label v)))"

text \<open>\<open>v + 'px'\<close> for a property that may be \<open>null\<close>.\<close>

definition plus_px :: "js_num option \<Rightarrow> css_value" where
  "plus_px v = (case v of None \<Rightarrow> NullPx | Some n \<Rightarrow> Px n)"

text \<open>\<open>_getResizeHost\<close>.\<close>

definition Resizer_getResizeHost :: "'g resizer \<Rightarrow> js_error + dom_element option" where
  "Resizer_getResizeHost r =
     (case r_domResizeWrapper r of
        None \<Rightarrow> Inl TypeError
      | Some wrapper \<Rightarrow>
          (let widgetWrapper = parentElement wrapper
           in Inr (case getResizeHost (r_options r) of
                     Some f \<Rightarrow> f widgetWrapper
                   | None \<Rightarrow> widgetWrapper)))"

text \<open>\<open>existsInDom\<close>, local to \<open>redraw\<close>; every element has an owner document.\<close>

definition existsInDom :: "dom_element option \<Rightarrow> bool" where
  "existsInDom element =
     (case element of None \<Rightarrow> False | Some el \<Rightarrow> ownerDocument_contains el)"

text \<open>
  \<open>redraw()\<close>. The rectangle of the host is read once, before the first assignment;
  \<open>new Rect( null )\<close> throws, as reading a property of \<open>null\<close> does.
\<close>

definition Resizer_redraw :: "layout \<Rightarrow> 'g resizer frame \<Rightarrow> 'g resizer frame outcome" where
  "Resizer_redraw lay st =
     (let domWrapper = r_domResizeWrapper (self st)
      in
        if existsInDom domWrapper then
     (case domWrapper of
        None \<Rightarrow> Normal st
      | Some wrapper \<Rightarrow>
     (let widgetWrapper = parentElement wrapper
      in
     (case Resizer_getResizeHost (self st) of
        Inl e \<Rightarrow> Threw e st
      | Inr resizingHost \<Rightarrow>
     (case resizingHost of
        None \<Rightarrow> Threw TypeError st
      | Some host \<Rightarrow>
     (let clientRect = lay (dom st) (node_id host);
          w = node_id wrapper;
          d1 = (dom st)(w := (dom st w)\<lparr>style_width := Some (Px (Num (rectWidth clientRect)))\<rparr>);
          d2 = d1(w := (d1 w)\<lparr>style_height := Some (Px (Num (rectHeight clientRect)))\<rparr>);
          s1 = st\<lparr>dom := d2\<rparr>
      in
     (case widgetWrapper of
        None \<Rightarrow> Threw TypeError s1
      | Some ww \<Rightarrow>
          if \<not> isSameNode ww resizingHost then
            Normal (s1\<lparr>dom := follow_host_offsets lay w (node_id host) d2\<rparr>)
          else Normal s1))))))
        else Normal st)"

text \<open>\<open>updateSize( domEventData )\<close>.\<close>

definition Resizer_updateSize ::
  "'g resizer_environment \<Rightarrow> dom_event_data \<Rightarrow> 'g resizer frame \<Rightarrow> 'g resizer frame outcome"
where
  "Resizer_updateSize env domEventData st =
     (case Resizer_getResizeHost (self st) of
        Inl e \<Rightarrow> Threw e st
      | Inr resizeHost \<Rightarrow>
     (case r_state (self st) of
        None \<Rightarrow> Threw TypeError st
      | Some state \<Rightarrow>
     (let newSize = proposeNewSize env state domEventData
      in
     (case resizeHost of
        None \<Rightarrow> Threw TypeError st
      | Some host \<Rightarrow>
     (let h = node_id host;
          d1 = (dom st)(h := (dom st h)\<lparr>style_width := Some (Px (fst newSize))\<rparr>);
          s1 = st\<lparr>dom := d1\<rparr>
      in
     (case Resizer_getResizeHost (self s1) of
        Inl e \<Rightarrow> Threw e s1
      | Inr host' \<Rightarrow>
     (case fetchSizeFromElement (r_layout env) d1 host' state of
        Inl e \<Rightarrow> Threw e s1
      | Inr state' \<Rightarrow>
     (let s2 = s1\<lparr>self := (self s1)\<lparr>r_state := Some state'\<rparr>\<rparr>
      in
     (case r_domResizeWrapper (self s2) of
        None \<Rightarrow> Threw TypeError s2
      | Some wrapper \<Rightarrow>
     (let w = node_id wrapper;
          d2 = d1(w := (d1 w)\<lparr>style_width := Some (plus_px (proposedWidth state'))\<rparr>);
          d3 = d2(w := (d2 w)\<lparr>style_height := Some (plus_px (proposedHeight state'))\<rparr>)
      in Normal (s2\<lparr>dom := d3\<rparr>)))))))))))"

text \<open>\<open>_dismissShadow\<close> and \<open>_cleanup\<close>; \<open>SizeView.dismiss\<close> unbinds the view, which
  keeps the label it shows, and hides it.\<close>

definition Resizer_dismissShadow :: "'g resizer frame \<Rightarrow> 'g resizer frame outcome" where
  "Resizer_dismissShadow st =
     (case r_domResizeShadow (self st) of
        None \<Rightarrow> Threw TypeError st
      | Some shadow \<Rightarrow> Normal (st\<lparr>dom := (dom st)(node_id shadow := no_style)\<rparr>))"

definition Resizer_cleanup :: "'g resizer frame \<Rightarrow> 'g resizer frame outcome" where
  "Resizer_cleanup st =
     (case sizeUi (self st) of
        None \<Rightarrow> Threw TypeError st
      | Some v \<Rightarrow>
          (let shown = (case sizeUi_label (self st) of None \<Rightarrow> label v | Some l \<Rightarrow> l)
           in Normal (st\<lparr>self := (self st)\<lparr>sizeUi :=
                          Some (v\<lparr>bound := False, isVisible := False, label := shown\<rparr>)\<rparr>\<rparr>)))"

text \<open>
  \<open>commit( editor )\<close>: the node written to is \<open>this._options.modelElement\<close>; no
  mapping is consulted.
\<close>

definition Resizer_commit :: "layout \<Rightarrow> 'g resizer frame \<Rightarrow> 'g resizer frame outcome" where
  "Resizer_commit lay st =
     (let modelElement' = modelElement (r_options (self st))
      in
     (case r_domResizeShadow (self st) of
        None \<Rightarrow> Threw TypeError st
      | Some shadow \<Rightarrow>
     (let newWidth = clientWidth (lay (dom st) (node_id shadow))
      in
        and_then (Resizer_dismissShadow st) (\<lambda>s1.
        and_then (Resizer_redraw lay s1) (\<lambda>s2.
          Resizer_cleanup
            (s2\<lparr>editing :=
                  model_change
                    [SetAttribute ''width'' (StringValue (show_int newWidth @ ''px''))
                       modelElement']
                    (editing s2)\<rparr>))))))"

text \<open>\<open>cancel()\<close> and \<open>destroy()\<close>.\<close>

definition Resizer_cancel :: "'g resizer frame \<Rightarrow> 'g resizer frame outcome" where
  "Resizer_cancel st = and_then (Resizer_dismissShadow st) Resizer_cleanup"

definition Resizer_destroy :: "'g resizer frame \<Rightarrow> 'g resizer frame outcome" where
  "Resizer_destroy st = Resizer_cancel st"

section \<open>Example documents\<close>

text \<open>
  Two widgets under one root, each with the overlay that \<open>attach\<close> renders: the resize
  wrapper as a child of the widget's wrapper, the shadow inside it and a handle inside the
  shadow. The first widget also holds an image. The examples below run the listeners on
  them.
\<close>

definition example_body :: dom_element where
  "example_body = TopElement 0 [] True"

definition example_figure :: dom_element where
  "example_figure = ChildElement 1 [''ck-widget'', ''ck-widget_with-resizer''] example_body"

definition example_wrapper :: dom_element where
  "example_wrapper = ChildElement 2 [''ck'', ''ck-widget__resizer-wrapper''] example_figure"

definition example_shadow :: dom_element where
  "example_shadow = ChildElement 3 [''ck'', ''ck-widget__resizer-shadow''] example_wrapper"

definition example_handle :: dom_element where
  "example_handle = ChildElement 4 (appendResizers_classes ''bottom-right'') example_shadow"

definition example_image :: dom_element where
  "example_image = ChildElement 5 [] example_figure"

definition other_figure :: dom_element where
  "other_figure = ChildElement 11 [''ck-widget'', ''ck-widget_with-resizer''] example_body"

definition other_wrapper :: dom_element where
  "other_wrapper = ChildElement 12 [''ck'', ''ck-widget__resizer-wrapper''] other_figure"

definition other_shadow :: dom_element where
  "other_shadow = ChildElement 13 [''ck'', ''ck-widget__resizer-shadow''] other_wrapper"

definition other_handle :: dom_element where
  "other_handle = ChildElement 14 (appendResizers_classes ''top-left'') other_shadow"

text \<open>A browser that renders every element as a box of 120 by 80 pixels at (8, 16), and
  one for which every element has collapsed to the height 0.\<close>

definition example_box :: box where
  "example_box =
     \<lparr>clientWidth = 120, clientHeight = 80, offsetLeft = 8, offsetTop = 16,
      offsetWidth = 120, offsetHeight = 80, rectWidth = 120, rectHeight = 80\<rparr>"

definition example_strategy :: "unit strategy" where
  "example_strategy =
     \<lparr>strategy_begin = (\<lambda>h s. s), strategy_commit = (\<lambda>s. s), strategy_cancel = (\<lambda>s. s),
      strategy_updateSize = (\<lambda>c d ev s. ((Num 150, Num 100), s))\<rparr>"

definition example_corner :: "dom_element option \<Rightarrow> string \<Rightarrow> js_error + point" where
  "example_corner h p =
     (case h of
        None \<Rightarrow> Inl TypeError
      | Some el \<Rightarrow>
          Inr \<lparr>point_x = (if js_index (js_split CHR ''-'' p) 1 = Some ''right'' then 128 else 8),
               point_y = (if js_index (js_split CHR ''-'' p) 0 = Some ''bottom'' then 96 else 16)\<rparr>)"

definition example_environment :: "unit environment" where
  "example_environment =
     \<lparr>layout = (\<lambda>d n. example_box),
      getAbsoluteBoundaryPoint = (\<lambda>d. example_corner),
      strategy = example_strategy\<rparr>"

definition flat_environment :: "unit environment" where
  "flat_environment = example_environment\<lparr>layout := (\<lambda>d n. example_box\<lparr>clientHeight := 0\<rparr>)\<rparr>"

definition example_options :: resizer_options where
  "example_options = \<lparr>getResizeHost = None, getAspectRatio = None, modelElement = Some 100\<rparr>"

definition image_options :: resizer_options where
  "image_options =
     \<lparr>getResizeHost = Some (\<lambda>wrapper. Some example_image), getAspectRatio = None,
      modelElement = Some 100\<rparr>"

text \<open>A context after \<open>attach\<close> and the first rendering, and an editor with a given
  mapper and no change yet.\<close>

definition rendered_context ::
  "resizer_options \<Rightarrow> nat \<Rightarrow> dom_element \<Rightarrow> dom_element \<Rightarrow> unit resize_context" where
  "rendered_context opts view w s =
     (ResizeContext_new opts ())\<lparr>widgetWrapperElement := Some view,
        domResizeWrapper := Some w, domResizeShadow := Some s\<rparr>"

definition example_editor :: "(nat option \<Rightarrow> nat option) \<Rightarrow> editor" where
  "example_editor m = \<lparr>toModelElement = m, model_changes = []\<rparr>"

definition example_frame :: "(nat option \<Rightarrow> nat option) \<Rightarrow> unit resize_context frame" where
  "example_frame m =
     \<lparr>self = rendered_context example_options 1 example_wrapper example_shadow,
      dom = (\<lambda>n. no_style), editing = example_editor m\<rparr>"

definition image_context_frame :: "unit resize_context frame" where
  "image_context_frame =
     \<lparr>self = rendered_context image_options 1 example_wrapper example_shadow,
      dom = (\<lambda>n. no_style), editing = example_editor (\<lambda>v. None)\<rparr>"

text \<open>The plugin with both widgets registered, in an editor whose mapper finds no model
  element.\<close>

definition example_plugin :: "unit widget_resizer" where
  "example_plugin =
     (WidgetResizer_init (\<lambda>n. no_style) (example_editor (\<lambda>v. None)))
       \<lparr>contexts := [rendered_context example_options 1 example_wrapper example_shadow,
                     rendered_context example_options 11 other_wrapper other_shadow]\<rparr>"

definition mouse_at :: "dom_element \<Rightarrow> dom_event_data" where
  "mouse_at el = \<lparr>target = el, pageX = 0, pageY = 0\<rparr>"

text \<open>A \<open>Resizer\<close> in the middle of a drag, on the widget's wrapper and on the image.\<close>

definition example_resizer :: "unit resizer" where
  "example_resizer =
     \<lparr>r_options = example_options, r_domResizeWrapper = Some example_wrapper,
      r_domResizeShadow = Some example_shadow,
      r_state = Some \<lparr>referenceGeometry = (), proposedWidth = None, proposedHeight = None\<rparr>,
      sizeUi = Some \<lparr>bound = True, isVisible = False, label = ''''\<rparr>\<rparr>"

definition example_resizer_frame :: "unit resizer frame" where
  "example_resizer_frame =
     \<lparr>self = example_resizer, dom = (\<lambda>n. no_style), editing = example_editor (\<lambda>v. None)\<rparr>"

definition image_resizer_frame :: "unit resizer frame" where
  "image_resizer_frame =
     \<lparr>self = example_resizer\<lparr>r_options := image_options\<rparr>,
      dom = (\<lambda>n. no_style), editing = example_editor (\<lambda>v. None)\<rparr>"

text \<open>A browser with a maximal width: an element is rendered at most 200 pixels wide,
  whatever width its style asks for, and two thirds as high as wide.\<close>

definition clamping_layout :: layout where
  "clamping_layout d n =
     (case style_width (d n) of
        Some (Px (Num q)) \<Rightarrow>
          example_box\<lparr>rectWidth := min q 200, rectHeight := min q 200 * 2 / 3\<rparr>
      | _ \<Rightarrow> example_box)"

definition clamping_environment :: "unit resizer_environment" where
  "clamping_environment =
     \<lparr>r_layout = clamping_layout, proposeNewSize = (\<lambda>state ev. (Num 300, Num 200))\<rparr>"

lemmas example_defs = example_body_def example_figure_def example_wrapper_def
  example_shadow_def example_handle_def example_image_def other_figure_def other_wrapper_def
  other_shadow_def other_handle_def example_box_def example_strategy_def example_corner_def
  example_environment_def flat_environment_def example_options_def image_options_def
  rendered_context_def example_editor_def example_frame_def image_context_frame_def
  example_plugin_def mouse_at_def example_resizer_def example_resizer_frame_def
  image_resizer_frame_def clamping_layout_def clamping_environment_def

lemmas context_defs = ResizeContext_commit_def ResizeContext_cancel_def
  ResizeContext_dismissShadow_def ResizeContext_redraw_def ResizeContext_getResizeHost_def
  ResizeContext_begin_def ResizeContext_updateSize_def ResizeContext_new_def
  ResizeContext_sizeUi_label_def cleanupContext_def model_change_def WIDTH_ATTRIBUTE_NAME_def
  isSameNode_def Let_def classList_remove_def classList_add_def follow_host_offsets_def
  no_style_def getResizerPosition_def resizerPositions_def getResizerClass_def
  appendResizers_classes_def js_div_def replacements_get_def replacements_def size_label_def

lemmas plugin_defs = mousedown_def mousedown_resizeHandler_def isResizeHandler_def
  getContextByHandler_def getContextByWrapper_def activeContext_object_def on_context_def
  put_frame_def WidgetResizer_init_def finishResizing_def mouseMoveListener_def

lemmas resizer_defs = Resizer_commit_def Resizer_cancel_def Resizer_dismissShadow_def
  Resizer_redraw_def Resizer_getResizeHost_def Resizer_cleanup_def Resizer_updateSize_def
  fetchSizeFromElement_def plus_px_def existsInDom_def sizeUi_label_def

lemmas show_defs = show_int_def show_nat.simps

section \<open>Position inversion\<close>

lemma invertPosition_table:
  "invertPosition (JString ''top-left'') = Inr ''bottom-right''"
  "invertPosition (JString ''top-right'') = Inr ''bottom-left''"
  "invertPosition (JString ''bottom-right'') = Inr ''top-left''"
  "invertPosition (JString ''bottom-left'') = Inr ''top-right''"
  by (simp_all add: replacements_get_def replacements_def)

lemma resizerPositions_cases:
  assumes "p \<in> set resizerPositions"
  obtains "p = ''top-left''" | "p = ''top-right''" | "p = ''bottom-right''" | "p = ''bottom-left''"
  using assms by (auto simp: resizerPositions_def)

text \<open>
  Claim C5. For each of the four valid handle positions, inverting twice gives the
  position back, and the inverse stays one of the four. Each axis is mapped on its own:
  the part before the dash and the part after it are replaced separately through the table
  \<open>replacements\<close>. So \<open>top-left\<close> is paired with \<open>bottom-right\<close> and \<open>top-right\<close> with
  \<open>bottom-left\<close>.
\<close>

theorem invertPosition_involution:
  assumes "p \<in> set resizerPositions"
  shows "(\<exists>q. invertPosition (JString p) = Inr q \<and> q \<in> set resizerPositions \<and>
              invertPosition (JString q) = Inr p) \<and>
         (\<exists>v h v' h'. p = v @ ''-'' @ h \<and> map_of replacements v = Some v' \<and>
              map_of replacements h = Some h' \<and>
              invertPosition (JString p) = Inr (v' @ ''-'' @ h')) \<and>
         invertPosition (JString ''top-left'') = Inr ''bottom-right'' \<and>
         invertPosition (JString ''bottom-right'') = Inr ''top-left'' \<and>
         invertPosition (JString ''top-right'') = Inr ''bottom-left'' \<and>
         invertPosition (JString ''bottom-left'') = Inr ''top-right''"
proof (intro conjI)
  show "\<exists>q. invertPosition (JString p) = Inr q \<and> q \<in> set resizerPositions \<and>
            invertPosition (JString q) = Inr p"
    using assms
  proof (cases rule: resizerPositions_cases)
    case 1
    then show ?thesis
      by (intro exI[of _ "''bottom-right''"])
         (simp add: invertPosition_table resizerPositions_def del: invertPosition.simps)
  next
    case 2
    then show ?thesis
      by (intro exI[of _ "''bottom-left''"])
         (simp add: invertPosition_table resizerPositions_def del: invertPosition.simps)
  next
    case 3
    then show ?thesis
      by (intro exI[of _ "''top-left''"])
         (simp add: invertPosition_table resizerPositions_def del: invertPosition.simps)
  next
    case 4
    then show ?thesis
      by (intro exI[of _ "''top-right''"])
         (simp add: invertPosition_table resizerPositions_def del: invertPosition.simps)
  qed
  show "\<exists>v h v' h'. p = v @ ''-'' @ h \<and> map_of replacements v = Some v' \<and>
              map_of replacements h = Some h' \<and>
              invertPosition (JString p) = Inr (v' @ ''-'' @ h')"
    using assms
  proof (cases rule: resizerPositions_cases)
    case 1
    then show ?thesis
      by (intro exI[of _ "''top''"] exI[of _ "''left''"] exI[of _ "''bottom''"]
            exI[of _ "''right''"])
         (simp add: invertPosition_table replacements_def del: invertPosition.simps)
  next
    case 2
    then show ?thesis
      by (intro exI[of _ "''top''"] exI[of _ "''right''"] exI[of _ "''bottom''"]
            exI[of _ "''left''"])
         (simp add: invertPosition_table replacements_def del: invertPosition.simps)
  next
    case 3
    then show ?thesis
      by (intro exI[of _ "''bottom''"] exI[of _ "''right''"] exI[of _ "''top''"]
            exI[of _ "''left''"])
         (simp add: invertPosition_table replacements_def del: invertPosition.simps)
  next
    case 4
    then show ?thesis
      by (intro exI[of _ "''bottom''"] exI[of _ "''left''"] exI[of _ "''top''"]
            exI[of _ "''right''"])
         (simp add: invertPosition_table replacements_def del: invertPosition.simps)
  qed
qed (simp_all only: invertPosition_table)

theorem invertPosition_involution_witness:
  "''top-right'' \<in> set resizerPositions \<and>
   invertPosition (JString ''top-right'') = Inr ''bottom-left'' \<and>
   invertPosition (JString ''bottom-left'') = Inr ''top-right''"
  using invertPosition_involution [of "''top-right''"]
  by (simp add: resizerPositions_def)

text \<open>
  Claim C9, as the spec states it, fails: the string \<open>middle\<close> is not one of the four
  labels, and \<open>_invertPosition\<close> returns the string \<open>undefined-undefined\<close> for it
  instead of failing.
\<close>

theorem invertPosition_invalid_label_returns:
  "''middle'' \<notin> set resizerPositions \<and>
   invertPosition (JString ''middle'') = Inr ''undefined-undefined''"
  by (simp add: resizerPositions_def replacements_get_def replacements_def
      Object_prototype_members_def)

text \<open>
  Claim C9, amended. Position inversion fails exactly when its input is \<open>undefined\<close>
  or \<open>null\<close> (the \<open>TypeError\<close> of calling \<open>split\<close> on it); for every string, one of
  the four labels or not, it returns a string.
\<close>

theorem invertPosition_fails_only_without_string:
  "((\<exists>e. invertPosition v = Inl e) \<longleftrightarrow> v = JUndefined \<or> v = JNull) \<and>
   (\<exists>r. invertPosition (JString s) = Inr r)"
  by (cases v) (simp_all add: Let_def)

section \<open>Handle classes and handle positions\<close>

lemma firstPositionIn_only:
  "p \<in> set ps \<Longrightarrow> getResizerClass p \<in> set tokens \<Longrightarrow>
   \<forall>q \<in> set ps. q \<noteq> p \<longrightarrow> getResizerClass q \<notin> set tokens \<Longrightarrow>
   firstPositionIn ps tokens = JString p"
  by (induction ps) auto

lemma firstPositionIn_none:
  "\<forall>q \<in> set ps. getResizerClass q \<notin> set tokens \<Longrightarrow> firstPositionIn ps tokens = JUndefined"
  by (induction ps) auto

lemma appendResizers_classes_only:
  "q \<noteq> p \<Longrightarrow> getResizerClass q \<notin> set (appendResizers_classes p)"
  by (auto simp: appendResizers_classes_def getResizerClass_def)

text \<open>
  Claim C10. A handle as \<open>_appendResizers\<close> renders it for one of the four positions
  \<open>p\<close> (class list \<open>ck-widget__resizer\<close> and the class generated for \<open>p\<close>) is recognised
  as \<open>p\<close>, by \<open>_getResizerPosition\<close> and by \<open>_getHandlePosition\<close>; so is every element
  that carries the class generated for \<open>p\<close> and, of the four generated classes, no other.
  An element that carries none of the four generated classes gives \<open>undefined\<close>: the
  lookup returns a value and raises nothing.
\<close>

theorem handle_position_roundtrip:
  "(p \<in> set resizerPositions \<and> classList rendered = appendResizers_classes p \<longrightarrow>
      getResizerPosition rendered = JString p \<and> getHandlePosition rendered = JString p) \<and>
   (p \<in> set resizerPositions \<and> getResizerClass p \<in> set (classList handle) \<and>
    (\<forall>q \<in> set resizerPositions. q \<noteq> p \<longrightarrow> getResizerClass q \<notin> set (classList handle)) \<longrightarrow>
      getResizerPosition handle = JString p \<and> getHandlePosition handle = JString p) \<and>
   ((\<forall>q \<in> set resizerPositions. getResizerClass q \<notin> set (classList other)) \<longrightarrow>
      getResizerPosition other = JUndefined \<and> getHandlePosition other = JUndefined)"
proof (intro conjI impI)
  assume r: "p \<in> set resizerPositions \<and> classList rendered = appendResizers_classes p"
  have own: "getResizerClass p \<in> set (appendResizers_classes p)"
    by (simp add: appendResizers_classes_def)
  have "firstPositionIn resizerPositions (appendResizers_classes p) = JString p"
    using r own by (intro firstPositionIn_only) (simp_all add: appendResizers_classes_only)
  with r show "getResizerPosition rendered = JString p"
    and "getHandlePosition rendered = JString p"
    by (simp_all add: getResizerPosition_def getHandlePosition_def)
next
  assume h: "p \<in> set resizerPositions \<and> getResizerClass p \<in> set (classList handle) \<and>
    (\<forall>q \<in> set resizerPositions. q \<noteq> p \<longrightarrow> getResizerClass q \<notin> set (classList handle))"
  then have "firstPositionIn resizerPositions (classList handle) = JString p"
    by (intro firstPositionIn_only) simp_all
  then show "getResizerPosition handle = JString p"
    and "getHandlePosition handle = JString p"
    by (simp_all add: getResizerPosition_def getHandlePosition_def)
next
  assume "\<forall>q \<in> set resizerPositions. getResizerClass q \<notin> set (classList other)"
  then have "firstPositionIn resizerPositions (classList other) = JUndefined"
    by (rule firstPositionIn_none)
  then show "getResizerPosition other = JUndefined"
    and "getHandlePosition other = JUndefined"
    by (simp_all add: getResizerPosition_def getHandlePosition_def)
qed

theorem handle_position_roundtrip_witness:
  "''bottom-right'' \<in> set resizerPositions \<and>
   appendResizers_classes ''bottom-right'' =
     [''ck-widget__resizer'', ''ck-widget__resizer-bottom-right''] \<and>
   getResizerPosition (TopElement 7
     [''ck-widget__resizer'', ''ck-widget__resizer-bottom-right''] True) = JString ''bottom-right'' \<and>
   getHandlePosition (TopElement 7
     [''ck-widget__resizer'', ''ck-widget__resizer-bottom-right''] True) = JString ''bottom-right'' \<and>
   getResizerPosition (TopElement 8
     [''ck'', ''ck-widget__resizer-bottom-right'']  True) = JString ''bottom-right'' \<and>
   getHandlePosition (TopElement 8
     [''ck'', ''ck-widget__resizer-bottom-right'']  True) = JString ''bottom-right'' \<and>
   getResizerPosition (TopElement 9 [''ck'', ''ck-widget__resizer-shadow''] True) = JUndefined \<and>
   getHandlePosition (TopElement 9 [''ck'', ''ck-widget__resizer-shadow''] True) = JUndefined"
  using handle_position_roundtrip [of "''bottom-right''"
      "TopElement 7 [''ck-widget__resizer'', ''ck-widget__resizer-bottom-right''] True"
      "TopElement 8 [''ck'', ''ck-widget__resizer-bottom-right''] True"
      "TopElement 9 [''ck'', ''ck-widget__resizer-shadow''] True"]
  by (simp add: resizerPositions_def getResizerClass_def appendResizers_classes_def)

section \<open>Outcomes and frames\<close>

lemma and_then_Normal:
  "and_then m f = Normal s \<longleftrightarrow> (\<exists>s1. m = Normal s1 \<and> f s1 = Normal s)"
  by (cases m) auto


lemma js_index_nth: "js_index xs i = (if i < length xs then Some (xs ! i) else None)"
  by (induction xs i rule: js_index.induct) auto

lemma js_index_Some_update:
  "js_index xs i = Some c \<Longrightarrow> js_index (xs[i := c']) i = Some c'"
  by (simp add: js_index_nth split: if_splits)

lemma state_of_on_context:
  "state_of (on_context i c method w) =
     put_frame i w (state_of (method \<lparr>self = c, dom = document w, editing = editor w\<rparr>))"
  by (cases "method \<lparr>self = c, dom = document w, editing = editor w\<rparr>")
     (simp_all add: on_context_def)

lemma is_Normal_on_context:
  "is_Normal (on_context i c method w) =
     is_Normal (method \<lparr>self = c, dom = document w, editing = editor w\<rparr>)"
  by (cases "method \<lparr>self = c, dom = document w, editing = editor w\<rparr>")
     (simp_all add: on_context_def)

lemma put_frame_simps [simp]:
  "activeContext (put_frame i w s) = activeContext w"
  "mouseMoveListening (put_frame i w s) = mouseMoveListening w"
  "contexts (put_frame i w s) = (contexts w)[i := self s]"
  "document (put_frame i w s) = dom s"
  "editor (put_frame i w s) = editing s"
  by (simp_all add: put_frame_def)

section \<open>What \<open>commit\<close> and \<open>cancel\<close> write\<close>

lemma ResizeContext_dismissShadow_editing:
  "editing (state_of (ResizeContext_dismissShadow st)) = editing st"
  by (simp add: ResizeContext_dismissShadow_def split: option.splits)

lemma ResizeContext_redraw_editing:
  "editing (state_of (ResizeContext_redraw lay st)) = editing st"
  by (simp add: ResizeContext_redraw_def Let_def split: option.splits sum.splits)

lemma ResizeContext_redraw_self:
  "self (state_of (ResizeContext_redraw lay st)) = self st"
  by (simp add: ResizeContext_redraw_def Let_def split: option.splits sum.splits)

lemma classList_remove_absent: "token \<notin> set (classList (classList_remove token el))"
  by (cases el) (simp_all add: classList_remove_def)

lemma ResizeContext_commit_Normal:
  assumes "ResizeContext_commit env st = Normal st'"
  shows "\<exists>shadow. domResizeShadow (self st) = Some shadow \<and>
           domResizeShadow (self st') =
             Some (classList_remove ''ck-widget__resizer-shadow-active'' shadow) \<and>
           model_changes (editing st') = model_changes (editing st) @
             [[SetAttribute WIDTH_ATTRIBUTE_NAME
                 (NumberValue (clientWidth (layout env (dom st) (node_id shadow))))
                 (toModelElement (editing st) (widgetWrapperElement (self st)))]]"
proof -
  from assms obtain shadow where sh: "domResizeShadow (self st) = Some shadow"
    by (auto simp: ResizeContext_commit_def Let_def split: option.splits)
  from assms sh obtain s1 s2 where
    s1: "ResizeContext_dismissShadow st = Normal s1" and
    s2: "ResizeContext_redraw (layout env) s1 = Normal s2" and
    st': "model_changes (editing st') = model_changes (editing s2) @
             [[SetAttribute WIDTH_ATTRIBUTE_NAME
                 (NumberValue (clientWidth (layout env (dom st) (node_id shadow))))
                 (toModelElement (editing st) (widgetWrapperElement (self st)))]]" and
    sh': "domResizeShadow (self st') = domResizeShadow (self s2)"
    by (auto simp: ResizeContext_commit_def Let_def and_then_Normal model_change_def
        cleanupContext_def)
  have "editing s1 = editing st"
    using ResizeContext_dismissShadow_editing [of st] s1 by simp
  moreover have "editing s2 = editing s1"
    using ResizeContext_redraw_editing [of "layout env" s1] s2 by simp
  moreover have "self s2 = self s1"
    using ResizeContext_redraw_self [of "layout env" s1] s2 by simp
  moreover have "domResizeShadow (self s1) =
      Some (classList_remove ''ck-widget__resizer-shadow-active'' shadow)"
    using s1 sh by (auto simp: ResizeContext_dismissShadow_def)
  ultimately show ?thesis using sh st' sh' by simp
qed

lemma ResizeContext_cancel_editing:
  "editing (state_of (ResizeContext_cancel env st)) = editing st"
  using ResizeContext_dismissShadow_editing [of st]
  by (cases "ResizeContext_dismissShadow st")
     (simp_all add: ResizeContext_cancel_def Let_def)

lemma Resizer_dismissShadow_editing:
  "editing (state_of (Resizer_dismissShadow st)) = editing st"
  by (simp add: Resizer_dismissShadow_def split: option.splits)

lemma Resizer_redraw_editing:
  "editing (state_of (Resizer_redraw lay st)) = editing st"
  by (simp add: Resizer_redraw_def Let_def split: option.splits sum.splits)

lemma Resizer_cleanup_editing:
  "editing (state_of (Resizer_cleanup st)) = editing st"
  by (simp add: Resizer_cleanup_def Let_def split: option.splits)

lemma Resizer_commit_Normal:
  assumes "Resizer_commit lay st = Normal st'"
  shows "\<exists>shadow. r_domResizeShadow (self st) = Some shadow \<and>
           model_changes (editing st') = model_changes (editing st) @
             [[SetAttribute ''width''
                 (StringValue (show_int (clientWidth (lay (dom st) (node_id shadow))) @ ''px''))
                 (modelElement (r_options (self st)))]]"
proof -
  from assms obtain shadow where sh: "r_domResizeShadow (self st) = Some shadow"
    by (auto simp: Resizer_commit_def Let_def split: option.splits)
  define wr where "wr = [SetAttribute ''width''
                 (StringValue (show_int (clientWidth (lay (dom st) (node_id shadow))) @ ''px''))
                 (modelElement (r_options (self st)))]"
  from assms sh obtain s1 s2 where
    s1: "Resizer_dismissShadow st = Normal s1" and
    s2: "Resizer_redraw lay s1 = Normal s2" and
    st': "Resizer_cleanup (s2\<lparr>editing := model_change wr (editing s2)\<rparr>) = Normal st'"
    by (auto simp: Resizer_commit_def Let_def and_then_Normal wr_def)
  have "editing s1 = editing st"
    using Resizer_dismissShadow_editing [of st] s1 by simp
  moreover have "editing s2 = editing s1"
    using Resizer_redraw_editing [of lay s1] s2 by simp
  moreover have "editing st' = model_change wr (editing s2)"
    using Resizer_cleanup_editing [of "s2\<lparr>editing := model_change wr (editing s2)\<rparr>"] st'
    by simp
  ultimately show ?thesis using sh by (simp add: model_change_def wr_def)
qed

lemma Resizer_cancel_editing:
  "editing (state_of (Resizer_cancel st)) = editing st"
proof (cases "Resizer_dismissShadow st")
  case (Normal s1)
  then show ?thesis
    using Resizer_dismissShadow_editing [of st] Resizer_cleanup_editing [of s1]
    by (simp add: Resizer_cancel_def)
next
  case (Threw e s1)
  then show ?thesis
    using Resizer_dismissShadow_editing [of st] by (simp add: Resizer_cancel_def)
qed

text \<open>
  Claim C2, as the spec states it, fails: with a mapper that finds no model element for
  the widget, \<open>ResizeContext.commit\<close> completes and has made one write, the call
  \<open>setAttribute( 'width', 120, undefined )\<close>, where the claim has none.
\<close>

theorem commit_writes_without_mapping:
  "toModelElement (editing (example_frame (\<lambda>v. None)))
     (widgetWrapperElement (self (example_frame (\<lambda>v. None)))) = None \<and>
   is_Normal (ResizeContext_commit example_environment (example_frame (\<lambda>v. None))) \<and>
   model_changes (editing (example_frame (\<lambda>v. None))) = [] \<and>
   model_changes (editing (state_of
     (ResizeContext_commit example_environment (example_frame (\<lambda>v. None))))) =
     [[SetAttribute ''width'' (NumberValue 120) None]]"
  by (simp add: example_defs context_defs)

text \<open>
  Claim C2, amended. A \<open>commit\<close> that completes has made exactly one transactional
  attribute write, whether the widget-to-node mapping resolves or not:
  \<open>ResizeContext.commit\<close> adds one change block with one \<open>setAttribute\<close> of \<open>width\<close> on
  whatever the mapper returned, \<open>undefined\<close> included, having taken the active-drag class
  off the shadow; \<open>Resizer.commit\<close> adds one change block with one \<open>setAttribute\<close> of
  \<open>width\<close> on \<open>options.modelElement\<close>. \<open>cancel\<close>, of either class, leaves the editor
  as it was.
\<close>

theorem commit_writes_once_cancel_never:
  "(ResizeContext_commit env st = Normal st' \<longrightarrow>
      (\<exists>newWidth. model_changes (editing st') = model_changes (editing st) @
         [[SetAttribute ''width'' (NumberValue newWidth)
             (toModelElement (editing st) (widgetWrapperElement (self st)))]]) \<and>
      (\<exists>shadow. domResizeShadow (self st') = Some shadow \<and>
         ''ck-widget__resizer-shadow-active'' \<notin> set (classList shadow))) \<and>
   (Resizer_commit lay rt = Normal rt' \<longrightarrow>
      (\<exists>newWidth. model_changes (editing rt') = model_changes (editing rt) @
         [[SetAttribute ''width'' (StringValue (show_int newWidth @ ''px''))
             (modelElement (r_options (self rt)))]])) \<and>
   editing (state_of (ResizeContext_cancel env st)) = editing st \<and>
   editing (state_of (Resizer_cancel rt)) = editing rt"
  using ResizeContext_commit_Normal [of env st st'] Resizer_commit_Normal [of lay rt rt']
  by (auto simp: WIDTH_ATTRIBUTE_NAME_def ResizeContext_cancel_editing Resizer_cancel_editing
      classList_remove_absent)

theorem commit_writes_once_cancel_never_witness:
  "is_Normal (ResizeContext_commit example_environment (example_frame (\<lambda>v. Some 100))) \<and>
   model_changes (editing (state_of
     (ResizeContext_commit example_environment (example_frame (\<lambda>v. Some 100))))) =
     [[SetAttribute ''width'' (NumberValue 120) (Some 100)]] \<and>
   is_Normal (Resizer_commit (\<lambda>d n. example_box) example_resizer_frame) \<and>
   model_changes (editing (state_of (Resizer_commit (\<lambda>d n. example_box) example_resizer_frame))) =
     [[SetAttribute ''width'' (StringValue ''120px'') (Some 100)]] \<and>
   model_changes (editing (state_of
     (ResizeContext_cancel example_environment (example_frame (\<lambda>v. Some 100))))) = [] \<and>
   model_changes (editing (state_of (Resizer_cancel example_resizer_frame))) = []"
  using commit_writes_once_cancel_never
    [of example_environment "example_frame (\<lambda>v. Some 100)"
        "state_of (ResizeContext_commit example_environment (example_frame (\<lambda>v. Some 100)))"
        "\<lambda>d n. example_box" example_resizer_frame
        "state_of (Resizer_commit (\<lambda>d n. example_box) example_resizer_frame)"]
  by (simp add: example_defs context_defs resizer_defs show_defs)

section \<open>\<open>begin\<close>\<close>

lemma firstPositionIn_member:
  "firstPositionIn ps tokens = JString p \<Longrightarrow> p \<in> set ps"
  by (induction ps) (auto split: if_splits)

lemma getResizerPosition_valid:
  "getResizerPosition h = JString p \<Longrightarrow> p \<in> set resizerPositions"
  unfolding getResizerPosition_def by (rule firstPositionIn_member)

lemma js_div_zero:
  "js_div a 0 = (if a = 0 then NaN else if 0 < a then PosInfinity else NegInfinity)"
  by (simp add: js_div_def)

text \<open>When \<open>begin\<close> completes, and the state it leaves.\<close>

lemma ResizeContext_begin_Normal:
  assumes "ResizeContext_getResizeHost (self st) = Inr (Some host)"
    and "domResizeShadow (self st) = Some shadow"
    and "getResizerPosition handler = JString p"
    and "invertPosition (JString p) = Inr reversedPosition"
    and "getAbsoluteBoundaryPoint env (dom st) (Some host) reversedPosition = Inr pt"
  shows "ResizeContext_begin env handler st =
     Normal (st\<lparr>self := (self st)\<lparr>
        domResizeShadow := Some (classList_add ''ck-widget__resizer-shadow-active'' shadow),
        referenceHandlerPosition := JString p,
        orientation := JString p,
        referenceCoordinates := pt,
        originalSize := \<lparr>size_x = clientWidth (layout env (dom st) (node_id host)),
                         size_y = clientHeight (layout env (dom st) (node_id host))\<rparr>,
        aspectRatio := Some (case getAspectRatio (options (self st)) of
                               Some f \<Rightarrow> f (Some host)
                             | None \<Rightarrow> js_div (clientWidth (layout env (dom st) (node_id host)))
                                         (clientHeight (layout env (dom st) (node_id host)))),
        resizeStrategy := strategy_begin (strategy env) handler (resizeStrategy (self st))\<rparr>\<rparr>)"
  using assms
  by (simp add: ResizeContext_begin_def Let_def del: invertPosition.simps
      split: option.split)

lemma ResizeContext_begin_Normal_only:
  assumes "ResizeContext_begin env handler st = Normal st'"
  shows "\<exists>host shadow p reversedPosition pt.
     ResizeContext_getResizeHost (self st) = Inr (Some host) \<and>
     domResizeShadow (self st) = Some shadow \<and>
     getResizerPosition handler = JString p \<and>
     invertPosition (JString p) = Inr reversedPosition \<and>
     getAbsoluteBoundaryPoint env (dom st) (Some host) reversedPosition = Inr pt"
proof -
  from assms obtain rh where rh: "ResizeContext_getResizeHost (self st) = Inr rh"
    by (auto simp: ResizeContext_begin_def split: sum.splits)
  from assms rh obtain shadow where sh: "domResizeShadow (self st) = Some shadow"
    by (auto simp: ResizeContext_begin_def split: option.splits)
  from assms rh sh obtain rp where
    rp: "invertPosition (getResizerPosition handler) = Inr rp"
    by (auto simp: ResizeContext_begin_def Let_def split: sum.splits
        simp del: invertPosition.simps)
  then obtain p where p: "getResizerPosition handler = JString p"
    by (cases "getResizerPosition handler") auto
  from assms rh sh rp obtain pt where
    pt: "getAbsoluteBoundaryPoint env (dom st) rh rp = Inr pt"
    by (auto simp: ResizeContext_begin_def Let_def split: sum.splits
        simp del: invertPosition.simps)
  from assms rh sh rp pt obtain host where "rh = Some host"
    by (auto simp: ResizeContext_begin_def Let_def split: option.splits
        simp del: invertPosition.simps)
  with rh sh rp p pt show ?thesis by auto
qed

text \<open>
  Claim C7. Whenever \<open>begin\<close> completes (a drag starts), the handle carries the class of
  one of the four positions \<open>p\<close>, and the context holds: as reference coordinates, what
  \<open>getAbsoluteBoundaryPoint\<close> gives for the resize host and the inverse of \<open>p\<close>, that
  is the absolute position of the opposite corner; as \<open>originalSize\<close>, the client width
  and height the host is rendered with at that moment; and as \<open>aspectRatio\<close>, the value
  of the host's \<open>getAspectRatio\<close> option when the option is given and the quotient
  \<open>originalSize.x / originalSize.y\<close> otherwise.
\<close>

theorem begin_captures_reference_geometry:
  assumes "ResizeContext_begin env handler st = Normal st'"
  shows "\<exists>host p reversedPosition.
     ResizeContext_getResizeHost (self st) = Inr (Some host) \<and>
     getResizerPosition handler = JString p \<and> p \<in> set resizerPositions \<and>
     invertPosition (JString p) = Inr reversedPosition \<and>
     getAbsoluteBoundaryPoint env (dom st) (Some host) reversedPosition =
       Inr (referenceCoordinates (self st')) \<and>
     originalSize (self st') =
       \<lparr>size_x = clientWidth (layout env (dom st) (node_id host)),
        size_y = clientHeight (layout env (dom st) (node_id host))\<rparr> \<and>
     aspectRatio (self st') =
       Some (case getAspectRatio (options (self st)) of
               Some f \<Rightarrow> f (Some host)
             | None \<Rightarrow> js_div (size_x (originalSize (self st'))) (size_y (originalSize (self st'))))"
proof -
  from ResizeContext_begin_Normal_only [OF assms] obtain host shadow p reversedPosition pt where
    h: "ResizeContext_getResizeHost (self st) = Inr (Some host)"
      "domResizeShadow (self st) = Some shadow"
      "getResizerPosition handler = JString p"
      "invertPosition (JString p) = Inr reversedPosition"
      "getAbsoluteBoundaryPoint env (dom st) (Some host) reversedPosition = Inr pt"
    by blast
  note n = ResizeContext_begin_Normal [OF h]
  from assms have st': "st' = state_of (ResizeContext_begin env handler st)" by simp
  have "referenceCoordinates (self st') = pt"
    unfolding st' n by simp
  moreover have "originalSize (self st') =
       \<lparr>size_x = clientWidth (layout env (dom st) (node_id host)),
        size_y = clientHeight (layout env (dom st) (node_id host))\<rparr>"
    unfolding st' n by simp
  moreover have "aspectRatio (self st') =
       Some (case getAspectRatio (options (self st)) of
               Some f \<Rightarrow> f (Some host)
             | None \<Rightarrow> js_div (clientWidth (layout env (dom st) (node_id host)))
                         (clientHeight (layout env (dom st) (node_id host))))"
    unfolding st' n by simp
  ultimately show ?thesis
    using h getResizerPosition_valid [OF h(3)]
    apply (rule_tac x = host in exI)
    apply (rule_tac x = p in exI)
    apply (rule_tac x = reversedPosition in exI)
    apply (simp del: invertPosition.simps split: option.split)
    done
qed

theorem begin_captures_reference_geometry_witness:
  "is_Normal (ResizeContext_begin example_environment example_handle (example_frame (\<lambda>v. None))) \<and>
   getResizerPosition example_handle = JString ''bottom-right'' \<and>
   invertPosition (JString ''bottom-right'') = Inr ''top-left'' \<and>
   getAbsoluteBoundaryPoint example_environment (\<lambda>n. no_style) (Some example_figure) ''top-left''
     = Inr \<lparr>point_x = 8, point_y = 16\<rparr> \<and>
   referenceCoordinates (self (state_of
     (ResizeContext_begin example_environment example_handle (example_frame (\<lambda>v. None))))) =
     \<lparr>point_x = 8, point_y = 16\<rparr> \<and>
   originalSize (self (state_of
     (ResizeContext_begin example_environment example_handle (example_frame (\<lambda>v. None))))) =
     \<lparr>size_x = 120, size_y = 80\<rparr> \<and>
   aspectRatio (self (state_of
     (ResizeContext_begin example_environment example_handle (example_frame (\<lambda>v. None))))) =
     Some (Num (3 / 2))"
  using begin_captures_reference_geometry [of example_environment example_handle
      "example_frame (\<lambda>v. None)"
      "state_of (ResizeContext_begin example_environment example_handle (example_frame (\<lambda>v. None)))"]
  by (simp add: example_defs context_defs)

section \<open>Pointer-down\<close>

lemma getContextByHandler_ignores [simp]:
  "getContextByHandler (w\<lparr>mouseMoveListening := b\<rparr>) h = getContextByHandler w h"
  "getContextByHandler (w\<lparr>activeContext := a\<rparr>) h = getContextByHandler w h"
  by (simp_all add: getContextByHandler_def getContextByWrapper_def)

lemma activeContext_object_ignores [simp]:
  "activeContext_object (w\<lparr>mouseMoveListening := b\<rparr>) = activeContext_object w"
  by (simp add: activeContext_object_def split: option.split)

lemma mousedown_no_handle:
  "mousedown_resizeHandler (target ev) = None \<Longrightarrow> mousedown env ev w = Normal w"
  by (simp add: mousedown_def)

lemma mousedown_found:
  assumes "mousedown_resizeHandler (target ev) = Some handler"
    and "getContextByHandler w handler = Inr found"
  shows "mousedown env ev w =
     (case activeContext_object (w\<lparr>mouseMoveListening := True, activeContext := found\<rparr>) of
        None \<Rightarrow> Normal (w\<lparr>mouseMoveListening := True, activeContext := found\<rparr>)
      | Some (i, c) \<Rightarrow>
          on_context i c (ResizeContext_begin env handler)
            (w\<lparr>mouseMoveListening := True, activeContext := found\<rparr>))"
  using assms by (simp add: mousedown_def Let_def)

lemma mousedown_sets_activeContext:
  assumes "mousedown_resizeHandler (target ev) = Some handler"
    and "getContextByHandler w handler = Inr found"
  shows "activeContext (state_of (mousedown env ev w)) = found"
    and "mouseMoveListening (state_of (mousedown env ev w))"
  unfolding mousedown_found [OF assms]
  by (simp_all add: state_of_on_context split: option.splits prod.splits)

lemma ResizeContext_begin_editing:
  "editing (state_of (ResizeContext_begin env handler st)) = editing st"
  by (simp add: ResizeContext_begin_def Let_def split: sum.splits option.splits
      del: invertPosition.simps)

lemma js_index_update_other:
  "i \<noteq> j \<Longrightarrow> js_index (xs[i := v]) j = js_index xs j"
  by (simp add: js_index_nth)

lemma mousedown_keeps_editor:
  assumes "mousedown_resizeHandler (target ev) = Some handler"
    and "getContextByHandler w handler = Inr found"
  shows "editor (state_of (mousedown env ev w)) = editor w"
  unfolding mousedown_found [OF assms]
  by (simp add: state_of_on_context ResizeContext_begin_editing
      split: option.splits prod.splits)

lemma mousedown_keeps_other_contexts:
  assumes "mousedown_resizeHandler (target ev) = Some handler"
    and "getContextByHandler w handler = Inr found"
    and "found \<noteq> Some j"
  shows "js_index (contexts (state_of (mousedown env ev w))) j = js_index (contexts w) j"
proof (cases "activeContext_object (w\<lparr>mouseMoveListening := True, activeContext := found\<rparr>)")
  case None
  then show ?thesis unfolding mousedown_found [OF assms(1,2)] by simp
next
  case (Some ic)
  obtain i c where ic: "ic = (i, c)" by (cases ic)
  with Some have "found = Some i"
    by (auto simp: activeContext_object_def split: option.splits)
  with assms(3) have "i \<noteq> j" by simp
  then show ?thesis
    unfolding mousedown_found [OF assms(1,2)] using Some ic
    by (simp add: state_of_on_context js_index_update_other)
qed

lemma mousedown_forgets_activeContext:
  assumes "mousedown_resizeHandler (target ev) = Some handler"
    and "getContextByHandler w handler = Inr found"
  shows "mousedown env ev (w\<lparr>activeContext := a\<rparr>) = mousedown env ev w"
proof -
  have "getContextByHandler (w\<lparr>activeContext := a\<rparr>) handler = Inr found"
    using assms(2) by simp
  moreover have
    "(w\<lparr>activeContext := a\<rparr>)\<lparr>mouseMoveListening := True, activeContext := found\<rparr> =
      w\<lparr>mouseMoveListening := True, activeContext := found\<rparr>"
    by simp
  ultimately show ?thesis
    unfolding mousedown_found [OF assms] by (simp only: mousedown_found [OF assms(1)])
qed

text \<open>
  Claim C1, as the spec states it, fails. With two widgets, a pointer-down on a handle of
  the first makes its context the active one; a pointer-down on a handle of the second,
  arriving before any pointer-up, is not ignored: the listener completes, \<open>activeContext\<close>
  is now the second context, and \<open>begin\<close> has run on it (it holds the position of the
  pressed handle, which was \<open>null\<close> before). A second drag has started beside the first:
  the shadows of both contexts carry the active-drag class.
\<close>

theorem second_pointer_down_starts_second_drag:
  "activeContext (run example_environment [MouseDown (mouse_at example_handle)] example_plugin)
     = Some 0 \<and>
   referenceHandlerPosition
     (contexts (run example_environment [MouseDown (mouse_at example_handle)] example_plugin) ! 1)
     = JNull \<and>
   is_Normal (mousedown example_environment (mouse_at other_handle)
     (run example_environment [MouseDown (mouse_at example_handle)] example_plugin)) \<and>
   activeContext (run example_environment
       [MouseDown (mouse_at example_handle), MouseDown (mouse_at other_handle)] example_plugin)
     = Some 1 \<and>
   referenceHandlerPosition
     (contexts (run example_environment
        [MouseDown (mouse_at example_handle), MouseDown (mouse_at other_handle)] example_plugin) ! 1)
     = JString ''top-left'' \<and>
   map_option classList (domResizeShadow
     (contexts (run example_environment
        [MouseDown (mouse_at example_handle), MouseDown (mouse_at other_handle)] example_plugin) ! 0))
     = Some [''ck'', ''ck-widget__resizer-shadow'', ''ck-widget__resizer-shadow-active''] \<and>
   map_option classList (domResizeShadow
     (contexts (run example_environment
        [MouseDown (mouse_at example_handle), MouseDown (mouse_at other_handle)] example_plugin) ! 1))
     = Some [''ck'', ''ck-widget__resizer-shadow'', ''ck-widget__resizer-shadow-active'']"
  by (simp add: example_defs context_defs plugin_defs)

lemma getContextByWrapper_from_bounds:
  "getContextByWrapper_from k cs wr = Inr (Some i) \<Longrightarrow> k \<le> i \<and> i < k + length cs"
proof (induction cs arbitrary: k)
  case Nil
  then show ?case by simp
next
  case (Cons c cs)
  from Cons.prems obtain el where el: "wr = Some el"
    by (cases wr) simp_all
  show ?case
  proof (cases "isSameNode el (domResizeWrapper c)")
    case True
    with Cons.prems el show ?thesis by simp
  next
    case False
    with Cons.prems el have "getContextByWrapper_from (Suc k) cs wr = Inr (Some i)"
      by simp
    from Cons.IH [OF this] show ?thesis by simp
  qed
qed

lemma getContextByHandler_registered:
  assumes "getContextByHandler w handler = Inr (Some i)"
  shows "\<exists>c. js_index (contexts w) i = Some c"
  using getContextByWrapper_from_bounds [of 0 "contexts w" _ i] assms
  by (auto simp: getContextByHandler_def getContextByWrapper_def js_index_nth)

lemma mousedown_runs_begin:
  assumes handle: "mousedown_resizeHandler (target ev) = Some handler"
    and found: "getContextByHandler w handler = Inr (Some i)"
    and ctx: "js_index (contexts w) i = Some c"
  shows "mousedown env ev w =
     on_context i c (ResizeContext_begin env handler)
       (w\<lparr>mouseMoveListening := True, activeContext := Some i\<rparr>)"
proof -
  have "activeContext_object (w\<lparr>mouseMoveListening := True, activeContext := Some i\<rparr>) =
      Some (i, c)"
    using ctx by (simp add: activeContext_object_def)
  then show ?thesis
    using mousedown_found [OF handle found, of env] by simp
qed

lemma mousedown_begin_result:
  assumes handle: "mousedown_resizeHandler (target ev) = Some handler"
    and found: "getContextByHandler w handler = Inr (Some i)"
    and ctx: "js_index (contexts w) i = Some c"
  shows "is_Normal (mousedown env ev w) =
           is_Normal (ResizeContext_begin env handler
                        \<lparr>self = c, dom = document w, editing = editor w\<rparr>)"
    and "js_index (contexts (state_of (mousedown env ev w))) i =
           Some (self (state_of (ResizeContext_begin env handler
                                   \<lparr>self = c, dom = document w, editing = editor w\<rparr>)))"
    and "document (state_of (mousedown env ev w)) =
           dom (state_of (ResizeContext_begin env handler
                            \<lparr>self = c, dom = document w, editing = editor w\<rparr>))"
  unfolding mousedown_runs_begin [OF assms]
  using ctx
  by (simp_all add: is_Normal_on_context state_of_on_context js_index_Some_update)

text \<open>
  Claim C1, amended. A pointer-down whose target neither is a handle nor lies inside one
  changes nothing, so a drag in progress goes on. A pointer-down on a handle whose context
  lookup returns is handled while a drag is in progress exactly as when the session is
  idle: the listener subscribes to pointer-move and overwrites \<open>activeContext\<close> with
  what the lookup found. When it found a context, that context is a registered one and the
  listener runs \<open>begin\<close> on it: the listener ends as this \<open>begin\<close> ends, and leaves the
  found context and the document as this \<open>begin\<close> left them. When it found none, it ends
  with \<open>activeContext\<close> cleared. The context that was active is neither committed nor
  cancelled: the editor records nothing, and every context but the one found stays as it
  is, the one of the drag in progress in its drag state. So \<open>activeContext\<close> refers to
  the context found and to no other, while the drag that was in progress has not ended.
\<close>

theorem pointer_down_replaces_active_context:
  "(mousedown_resizeHandler (target ev) = None \<longrightarrow> mousedown env ev w = Normal w) \<and>
   (mousedown_resizeHandler (target ev) = Some handler \<and>
    getContextByHandler w handler = Inr found \<longrightarrow>
      activeContext (state_of (mousedown env ev w)) = found \<and>
      mouseMoveListening (state_of (mousedown env ev w)) \<and>
      editor (state_of (mousedown env ev w)) = editor w \<and>
      (\<forall>j. found \<noteq> Some j \<longrightarrow>
         js_index (contexts (state_of (mousedown env ev w))) j = js_index (contexts w) j) \<and>
      (\<forall>i. found = Some i \<longrightarrow>
         (\<exists>c. js_index (contexts w) i = Some c \<and>
            is_Normal (mousedown env ev w) =
              is_Normal (ResizeContext_begin env handler
                           \<lparr>self = c, dom = document w, editing = editor w\<rparr>) \<and>
            js_index (contexts (state_of (mousedown env ev w))) i =
              Some (self (state_of (ResizeContext_begin env handler
                                      \<lparr>self = c, dom = document w, editing = editor w\<rparr>))) \<and>
            document (state_of (mousedown env ev w)) =
              dom (state_of (ResizeContext_begin env handler
                               \<lparr>self = c, dom = document w, editing = editor w\<rparr>)))) \<and>
      (found = None \<longrightarrow>
         mousedown env ev w = Normal (w\<lparr>mouseMoveListening := True, activeContext := None\<rparr>)) \<and>
      mousedown env ev w = mousedown env ev (w\<lparr>activeContext := None\<rparr>))"
proof (intro conjI impI allI)
  assume "mousedown_resizeHandler (target ev) = None"
  then show "mousedown env ev w = Normal w" by (rule mousedown_no_handle)
next
  assume h: "mousedown_resizeHandler (target ev) = Some handler \<and>
    getContextByHandler w handler = Inr found"
  then have handle: "mousedown_resizeHandler (target ev) = Some handler"
    and found: "getContextByHandler w handler = Inr found" by simp_all
  show "activeContext (state_of (mousedown env ev w)) = found"
    by (rule mousedown_sets_activeContext [OF handle found])
  show "mouseMoveListening (state_of (mousedown env ev w))"
    by (rule mousedown_sets_activeContext [OF handle found])
  show "editor (state_of (mousedown env ev w)) = editor w"
    by (rule mousedown_keeps_editor [OF handle found])
  show "mousedown env ev w = mousedown env ev (w\<lparr>activeContext := None\<rparr>)"
    using mousedown_forgets_activeContext [OF handle found, of env None] by simp
  {
    fix j assume "found \<noteq> Some j"
    then show "js_index (contexts (state_of (mousedown env ev w))) j = js_index (contexts w) j"
      by (rule mousedown_keeps_other_contexts [OF handle found])
  }
  {
    fix i assume i: "found = Some i"
    with found have f: "getContextByHandler w handler = Inr (Some i)" by simp
    from getContextByHandler_registered [OF f] obtain c where
      c: "js_index (contexts w) i = Some c" by blast
    show "\<exists>c. js_index (contexts w) i = Some c \<and>
            is_Normal (mousedown env ev w) =
              is_Normal (ResizeContext_begin env handler
                           \<lparr>self = c, dom = document w, editing = editor w\<rparr>) \<and>
            js_index (contexts (state_of (mousedown env ev w))) i =
              Some (self (state_of (ResizeContext_begin env handler
                                      \<lparr>self = c, dom = document w, editing = editor w\<rparr>))) \<and>
            document (state_of (mousedown env ev w)) =
              dom (state_of (ResizeContext_begin env handler
                               \<lparr>self = c, dom = document w, editing = editor w\<rparr>))"
      using c mousedown_begin_result [OF handle f c, of env] by blast
  }
  {
    assume "found = None"
    with found have f: "getContextByHandler w handler = Inr None" by simp
    show "mousedown env ev w = Normal (w\<lparr>mouseMoveListening := True, activeContext := None\<rparr>)"
      using mousedown_found [OF handle f, of env]
      by (simp add: activeContext_object_def)
  }
qed


theorem pointer_down_replaces_active_context_witness:
  "mousedown_resizeHandler (target (mouse_at other_handle)) = Some other_handle \<and>
   getContextByHandler
     (state_of (mousedown example_environment (mouse_at example_handle) example_plugin))
     other_handle = Inr (Some 1) \<and>
   activeContext (state_of (mousedown example_environment (mouse_at example_handle) example_plugin))
     = Some 0 \<and>
   activeContext (state_of (mousedown example_environment (mouse_at other_handle)
     (state_of (mousedown example_environment (mouse_at example_handle) example_plugin))))
     = Some 1 \<and>
   js_index (contexts (state_of (mousedown example_environment (mouse_at other_handle)
     (state_of (mousedown example_environment (mouse_at example_handle) example_plugin))))) 1
     = Some (self (state_of (ResizeContext_begin example_environment other_handle
         \<lparr>self = rendered_context example_options 11 other_wrapper other_shadow,
          dom = (\<lambda>n. no_style), editing = example_editor (\<lambda>v. None)\<rparr>))) \<and>
   referenceHandlerPosition (self (state_of (ResizeContext_begin example_environment other_handle
         \<lparr>self = rendered_context example_options 11 other_wrapper other_shadow,
          dom = (\<lambda>n. no_style), editing = example_editor (\<lambda>v. None)\<rparr>)))
     = JString ''top-left'' \<and>
   mousedown_resizeHandler (target (mouse_at example_image)) = None \<and>
   activeContext (state_of (mousedown example_environment (mouse_at example_image)
     (state_of (mousedown example_environment (mouse_at example_handle) example_plugin))))
     = Some 0 \<and>
   getContextByHandler
     (WidgetResizer_init (\<lambda>n. no_style) (example_editor (\<lambda>v. None)) :: unit widget_resizer)
     example_handle = Inr None \<and>
   activeContext (state_of (mousedown example_environment (mouse_at example_handle)
     (WidgetResizer_init (\<lambda>n. no_style) (example_editor (\<lambda>v. None)) :: unit widget_resizer)))
     = None"
  using pointer_down_replaces_active_context [of "mouse_at other_handle" example_environment
      "state_of (mousedown example_environment (mouse_at example_handle) example_plugin)"
      other_handle "Some 1"]
    pointer_down_replaces_active_context [of "mouse_at example_image" example_environment
      "state_of (mousedown example_environment (mouse_at example_handle) example_plugin)"
      example_image None]
    pointer_down_replaces_active_context [of "mouse_at example_handle" example_environment
      "WidgetResizer_init (\<lambda>n. no_style) (example_editor (\<lambda>v. None))"
      example_handle None]
  by (simp add: example_defs context_defs plugin_defs)

section \<open>A host of height zero\<close>

text \<open>
  Claim C4, as the spec states it, fails. In a document whose elements are rendered 120
  pixels wide and 0 pixels high, and for a widget without \<open>getAspectRatio\<close> option, a
  pointer-down on a handle completes: the context is active, its \<open>aspectRatio\<close> is
  \<open>Infinity\<close>, and the pointer-up that follows commits it (the editor records a write).
\<close>

theorem zero_height_drag_starts_and_commits:
  "clientHeight (layout flat_environment (document example_plugin) (node_id example_figure)) = 0 \<and>
   getAspectRatio (options (contexts example_plugin ! 0)) = None \<and>
   is_Normal (mousedown flat_environment (mouse_at example_handle) example_plugin) \<and>
   activeContext (run flat_environment [MouseDown (mouse_at example_handle)] example_plugin)
     = Some 0 \<and>
   aspectRatio (contexts
     (run flat_environment [MouseDown (mouse_at example_handle)] example_plugin) ! 0)
     = Some PosInfinity \<and>
   model_changes (editor
     (run flat_environment [MouseDown (mouse_at example_handle), MouseUp] example_plugin)) =
     [[SetAttribute ''width'' (NumberValue 120) None]]"
  by (simp add: example_defs context_defs plugin_defs)

text \<open>
  Claim C4, amended. A rendered height of 0 without aspect-ratio override does not make
  \<open>begin\<close> fail: the code has no such check. For a pointer-down on a handle of a
  registered, rendered context (its host and shadow exist, the handle carries a position
  class, \<open>getAbsoluteBoundaryPoint\<close> returns), the listener completes although the host's
  height is 0 and no override is given: the context becomes the active one, so the drag
  has started and the next pointer-up will commit it, and its \<open>aspectRatio\<close> is the
  quotient of the width by 0, which is no finite number (\<open>Infinity\<close>, or \<open>NaN\<close> for the
  width 0).
\<close>

theorem begin_accepts_zero_height:
  assumes handle: "mousedown_resizeHandler (target ev) = Some handler"
    and found: "getContextByHandler w handler = Inr (Some i)"
    and ctx: "js_index (contexts w) i = Some c"
    and host: "ResizeContext_getResizeHost c = Inr (Some host)"
    and shadow: "domResizeShadow c = Some shadow"
    and position: "getResizerPosition handler = JString p"
    and reversed: "invertPosition (JString p) = Inr reversedPosition"
    and corner: "getAbsoluteBoundaryPoint env (document w) (Some host) reversedPosition = Inr pt"
    and flat: "clientHeight (layout env (document w) (node_id host)) = 0"
    and no_override: "getAspectRatio (options c) = None"
  shows "is_Normal (mousedown env ev w) \<and>
         activeContext (state_of (mousedown env ev w)) = Some i \<and>
         (\<exists>c'. activeContext_object (state_of (mousedown env ev w)) = Some (i, c') \<and>
               aspectRatio c' =
                 Some (js_div (clientWidth (layout env (document w) (node_id host))) 0) \<and>
               (\<forall>q. aspectRatio c' \<noteq> Some (Num q)))"
proof -
  let ?w2 = "w\<lparr>mouseMoveListening := True, activeContext := Some i\<rparr>"
  let ?st = "\<lparr>self = c, dom = document w, editing = editor w\<rparr>"
  have obj: "activeContext_object ?w2 = Some (i, c)"
    using ctx by (simp add: activeContext_object_def)
  have md: "mousedown env ev w = on_context i c (ResizeContext_begin env handler) ?w2"
    using mousedown_found [OF handle found, of env] obj by simp
  have b: "ResizeContext_begin env handler ?st = Normal (?st\<lparr>self := c\<lparr>
        domResizeShadow := Some (classList_add ''ck-widget__resizer-shadow-active'' shadow),
        referenceHandlerPosition := JString p,
        orientation := JString p,
        referenceCoordinates := pt,
        originalSize := \<lparr>size_x = clientWidth (layout env (document w) (node_id host)),
                         size_y = clientHeight (layout env (document w) (node_id host))\<rparr>,
        aspectRatio := Some (case getAspectRatio (options c) of
                               Some f \<Rightarrow> f (Some host)
                             | None \<Rightarrow> js_div (clientWidth (layout env (document w) (node_id host)))
                                         (clientHeight (layout env (document w) (node_id host)))),
        resizeStrategy := strategy_begin (strategy env) handler (resizeStrategy c)\<rparr>\<rparr>)"
    (is "_ = Normal ?st'")
    using ResizeContext_begin_Normal [of ?st host shadow handler p reversedPosition env pt]
      host shadow position reversed corner
    by (simp del: invertPosition.simps split: option.split)
  have n: "is_Normal (mousedown env ev w)"
    unfolding md by (simp add: is_Normal_on_context b)
  have s: "state_of (mousedown env ev w) = put_frame i ?w2 ?st'"
    unfolding md by (simp add: state_of_on_context b)
  have a: "activeContext (state_of (mousedown env ev w)) = Some i"
    unfolding s by simp
  have o: "activeContext_object (state_of (mousedown env ev w)) = Some (i, self ?st')"
    unfolding s activeContext_object_def using ctx
    by (simp add: js_index_Some_update)
  have r: "aspectRatio (self ?st') =
      Some (js_div (clientWidth (layout env (document w) (node_id host))) 0)"
    using flat no_override by simp
  have "\<forall>q. aspectRatio (self ?st') \<noteq> Some (Num q)"
    unfolding r by (simp add: js_div_zero)
  with n a o r show ?thesis by blast
qed

theorem begin_accepts_zero_height_witness:
  "mousedown_resizeHandler (target (mouse_at example_handle)) = Some example_handle \<and>
   getContextByHandler example_plugin example_handle = Inr (Some 0) \<and>
   clientHeight (layout flat_environment (document example_plugin) (node_id example_figure)) = 0 \<and>
   is_Normal (mousedown flat_environment (mouse_at example_handle) example_plugin) \<and>
   activeContext (state_of (mousedown flat_environment (mouse_at example_handle) example_plugin))
     = Some 0"
  using begin_accepts_zero_height [of "mouse_at example_handle" example_handle example_plugin 0
      "rendered_context example_options 1 example_wrapper example_shadow" example_figure
      example_shadow "''bottom-right''" "''top-left''" flat_environment
      "\<lparr>point_x = 8, point_y = 16\<rparr>"]
  by (simp add: example_defs context_defs plugin_defs)

section \<open>Pointer-up\<close>






section \<open>\<open>redraw\<close>\<close>

lemma follow_host_offsets_fixed:
  assumes "\<And>d v. lay (d(w := v)) h = lay d h"
  shows "follow_host_offsets lay w h d =
     d(w := (d w)\<lparr>style_left := Some (px_int (offsetLeft (lay d h))),
                   style_top := Some (px_int (offsetTop (lay d h))),
                   style_height := Some (px_int (offsetHeight (lay d h))),
                   style_width := Some (px_int (offsetWidth (lay d h)))\<rparr>)"
  by (simp add: follow_host_offsets_def Let_def assms)

lemma follow_host_offsets_twice:
  assumes "\<And>d v. lay (d(w := v)) h = lay d h"
  shows "follow_host_offsets lay w h (follow_host_offsets lay w h d) =
     follow_host_offsets lay w h d"
  using assms by (simp add: follow_host_offsets_fixed [of lay w h])

lemma ResizeContext_redraw_twice:
  assumes wrapper: "domResizeWrapper (self st) = Some wrapper"
    and host: "ResizeContext_getResizeHost (self st) = Inr (Some host)"
    and still: "\<And>d v. lay (d(node_id wrapper := v)) (node_id host) = lay d (node_id host)"
  shows "ResizeContext_redraw lay (state_of (ResizeContext_redraw lay st)) =
     ResizeContext_redraw lay st"
proof (cases "parentElement wrapper")
  case None
  then show ?thesis using wrapper host by (simp add: ResizeContext_redraw_def Let_def)
next
  case (Some ww)
  show ?thesis
  proof (cases "isSameNode ww (Some host)")
    case True
    then show ?thesis using wrapper host Some by (simp add: ResizeContext_redraw_def Let_def)
  next
    case False
    have r: "ResizeContext_redraw lay s =
        Normal (s\<lparr>dom := follow_host_offsets lay (node_id wrapper) (node_id host) (dom s)\<rparr>)"
      if "self s = self st" for s
      using that wrapper host Some False by (simp add: ResizeContext_redraw_def Let_def)
    show ?thesis
      using still
      by (simp add: r follow_host_offsets_twice [of lay "node_id wrapper" "node_id host"])
  qed
qed

lemma Resizer_redraw_twice:
  assumes wrapper: "r_domResizeWrapper (self st) = Some wrapper"
    and host: "Resizer_getResizeHost (self st) = Inr (Some host)"
    and still: "\<And>d v. lay (d(node_id wrapper := v)) (node_id host) = lay d (node_id host)"
  shows "Resizer_redraw lay (state_of (Resizer_redraw lay st)) = Resizer_redraw lay st"
proof (cases "existsInDom (Some wrapper)")
  case False
  then show ?thesis using wrapper by (simp add: Resizer_redraw_def Let_def)
next
  case True
  note inDom = this
  show ?thesis
  proof (cases "parentElement wrapper")
    case None
    then show ?thesis
      using wrapper host inDom still
      by (simp add: Resizer_redraw_def Let_def)
  next
    case (Some ww)
    show ?thesis
    proof (cases "isSameNode ww (Some host)")
      case True
      then show ?thesis
        using wrapper host inDom still Some
        by (simp add: Resizer_redraw_def Let_def)
    next
      case False
      then show ?thesis
        using wrapper host inDom still Some
        by (simp add: Resizer_redraw_def Let_def
            follow_host_offsets_fixed [of lay "node_id wrapper" "node_id host"])
    qed
  qed
qed

text \<open>
  Claim C8. Take a state in which the overlay exists (the wrapper of the overlay is set
  and the resize host is found) and a layout that does not change in between: the box the
  browser renders for the host does not depend on the inline style of the overlay's
  wrapper, which is all that \<open>redraw\<close> writes. Then a second \<open>redraw\<close> right after the
  first ends as the first did, with the same styles; in particular the overlay has the
  same left, top, width and height. This holds for \<open>ResizeContext.redraw\<close> and for
  \<open>Resizer.redraw\<close>.
\<close>

theorem redraw_idempotent:
  "(domResizeWrapper (self st) = Some wrapper \<and>
    ResizeContext_getResizeHost (self st) = Inr (Some host) \<and>
    (\<forall>d v. lay (d(node_id wrapper := v)) (node_id host) = lay d (node_id host)) \<longrightarrow>
      ResizeContext_redraw lay (state_of (ResizeContext_redraw lay st)) =
        ResizeContext_redraw lay st \<and>
      dom (state_of (ResizeContext_redraw lay (state_of (ResizeContext_redraw lay st))))
          (node_id wrapper) =
        dom (state_of (ResizeContext_redraw lay st)) (node_id wrapper)) \<and>
   (r_domResizeWrapper (self rt) = Some r_wrapper \<and>
    Resizer_getResizeHost (self rt) = Inr (Some r_host) \<and>
    (\<forall>d v. lay (d(node_id r_wrapper := v)) (node_id r_host) = lay d (node_id r_host)) \<longrightarrow>
      Resizer_redraw lay (state_of (Resizer_redraw lay rt)) = Resizer_redraw lay rt \<and>
      dom (state_of (Resizer_redraw lay (state_of (Resizer_redraw lay rt)))) (node_id r_wrapper) =
        dom (state_of (Resizer_redraw lay rt)) (node_id r_wrapper))"
  using ResizeContext_redraw_twice [of st wrapper host lay]
    Resizer_redraw_twice [of rt r_wrapper r_host lay]
  by simp

theorem redraw_idempotent_witness:
  "domResizeWrapper (self image_context_frame) = Some example_wrapper \<and>
   ResizeContext_getResizeHost (self image_context_frame) = Inr (Some example_image) \<and>
   dom (state_of (ResizeContext_redraw (\<lambda>d n. example_box) image_context_frame))
       (node_id example_wrapper) =
     \<lparr>style_left = Some (px_int 8), style_top = Some (px_int 16),
      style_width = Some (px_int 120), style_height = Some (px_int 80)\<rparr> \<and>
   dom (state_of (ResizeContext_redraw (\<lambda>d n. example_box)
         (state_of (ResizeContext_redraw (\<lambda>d n. example_box) image_context_frame))))
       (node_id example_wrapper) =
     \<lparr>style_left = Some (px_int 8), style_top = Some (px_int 16),
      style_width = Some (px_int 120), style_height = Some (px_int 80)\<rparr> \<and>
   r_domResizeWrapper (self image_resizer_frame) = Some example_wrapper \<and>
   Resizer_getResizeHost (self image_resizer_frame) = Inr (Some example_image) \<and>
   dom (state_of (Resizer_redraw (\<lambda>d n. example_box) image_resizer_frame))
       (node_id example_wrapper) =
     \<lparr>style_left = Some (px_int 8), style_top = Some (px_int 16),
      style_width = Some (px_int 120), style_height = Some (px_int 80)\<rparr> \<and>
   dom (state_of (Resizer_redraw (\<lambda>d n. example_box)
         (state_of (Resizer_redraw (\<lambda>d n. example_box) image_resizer_frame))))
       (node_id example_wrapper) =
     \<lparr>style_left = Some (px_int 8), style_top = Some (px_int 16),
      style_width = Some (px_int 120), style_height = Some (px_int 80)\<rparr>"
  using redraw_idempotent [of image_context_frame example_wrapper example_image
      "\<lambda>d n. example_box" image_resizer_frame example_wrapper example_image]
  by (simp add: example_defs context_defs resizer_defs)

section \<open>\<open>updateSize\<close>\<close>







end
